theory Spec2Isabelle
  imports Complex_Main
begin

section \<open>Shared schema (shared/schema.ts)\<close>

text \<open>
  The persistent store is a record of four tables, each a list of rows in storage order.
  JSON objects keyed by kid id (\<open>assigned\<close>, \<open>progress\<close>, \<open>dailyWatchTime\<close>) are maps.
  Optional fields are options.  Counters and priorities are integers.  Numbers that measure
  seconds are JavaScript doubles: the finite ones are reals, on which comparison and
  \<open>Math.max\<close> are exact, while subtraction and addition round; the functions that subtract or
  add take the runtime's two rounding operations as parameters \<open>num_sub\<close> and \<open>num_add\<close>.
  The store refuses a string that holds U+0000, in a \<open>text\<close> column and inside a \<open>jsonb\<close>
  document alike.  The rename of a folder, which writes a caller's string to a \<open>text\<close>
  column, has that failure as a result; the functions that write the \<open>jsonb\<close> documents of a
  video are modelled on documents the store accepts, and the theorems about them name the
  caller's strings that have to be storable.
\<close>

record VoiceRecording =
  recordedAt :: string
  duration :: real
  audioData :: "string option"

record VideoProgress =
  watched :: bool
  watchedAt :: "string option"
  voiceRecording :: "VoiceRecording option"
  voiceRecordings :: "VoiceRecording list option"
  parentReviewed :: "bool option"
  lastPosition :: "real option"
  videoDuration :: "real option"
  dailyWatchTime :: "(string \<rightharpoonup> real) option"

definition MAX_VIDEO_VIEWS :: int where
  "MAX_VIDEO_VIEWS = 4"

datatype VideoPlatform = youtube | tiktok

definition VIDEO_PRIORITY_DEFAULT :: int where
  "VIDEO_PRIORITY_DEFAULT = 5"

record Kid =
  kid_id :: string
  kid_name :: string
  kid_avatar :: string

record KidRow = Kid +
  kid_userId :: string

record Folder =
  folder_id :: string
  folder_name :: string

record FolderRow = Folder +
  folder_userId :: string

record Video =
  video_id :: string
  video_url :: string
  ytId :: string
  platform :: VideoPlatform
  video_folderId :: "string option"
  video_priority :: int
  assigned :: "string \<rightharpoonup> bool"
  progress :: "string \<rightharpoonup> VideoProgress"
  totalViews :: int

record VideoRow = Video +
  video_userId :: string

record SubscriptionRow =
  sub_id :: string
  sub_userId :: string
  sub_masterFolderId :: string
  sub_kidIds :: "string list"
  sub_createdAt :: "string option"

record DB =
  kidsTable :: "KidRow list"
  foldersTable :: "FolderRow list"
  videosTable :: "VideoRow list"
  globalSubscriptionsTable :: "SubscriptionRow list"

text \<open>
  Failures.  The first four are the \<open>{ video: null, error }\<close> results of the storage layer,
  with the message the source attaches; \<open>DuplicateKey\<close> is the exception the store raises
  when an insert repeats a primary key (its message is the store's own; no route relays it).
\<close>

datatype error = VideoNotFound | MaxViewsReached | InvalidVideoUrl | AlreadyInLibrary | DuplicateKey

fun error_message :: "error \<Rightarrow> string" where
  "error_message VideoNotFound = ''Video not found''"
| "error_message MaxViewsReached = ''This video has reached the maximum number of views (4)''"
| "error_message InvalidVideoUrl = ''Invalid video URL. Please paste a valid YouTube or TikTok link.''"
| "error_message AlreadyInLibrary = ''This video has already been added to your library.''"
| "error_message DuplicateKey = ''duplicate key value violates unique constraint''"

text \<open>What a route sends: a JSON body with a status, an error body with a status, or no body.\<close>

datatype 'a Response = Json nat 'a | ErrorJson nat string | Empty nat

section \<open>JavaScript idioms\<close>

text \<open>\<open>x || d\<close> on an optional string or number: the default replaces undefined, the empty
  string and zero.\<close>

definition str_or :: "string option \<Rightarrow> string \<Rightarrow> string" where
  "str_or x d = (case x of None \<Rightarrow> d | Some s \<Rightarrow> if s = [] then d else s)"


definition int_or :: "int \<Rightarrow> int \<Rightarrow> int" where
  "int_or n d = (if n = 0 then d else n)"

text \<open>
  \<open>obj[key] = v\<close> on a plain object that was parsed from JSON or written as \<open>{}\<close>.  Every key
  becomes an own property, except \<open>__proto__\<close> when the object has no own property of that
  name: the assignment then reaches the prototype setter and the object's properties, which
  are all the store and a response serialise, stay as they were.
\<close>

definition js_set :: "(string \<rightharpoonup> 'a) \<Rightarrow> string \<Rightarrow> 'a \<Rightarrow> (string \<rightharpoonup> 'a)" where
  "js_set obj key v = (if key = ''__proto__'' \<and> obj key = None then obj else obj(key \<mapsto> v))"


section \<open>Storage: videos and progress (server/storage.ts)\<close>

definition getVideo :: "string \<Rightarrow> string \<Rightarrow> DB \<Rightarrow> Video option" where
  "getVideo ident userId db =
     map_option Video.truncate
       (find (\<lambda>r. video_id r = ident \<and> video_userId r = userId) (videosTable db))"

text \<open>
  \<open>markVideoWatched\<close>.  \<open>now\<close> is the clock's ISO timestamp.  The update statement rewrites
  \<open>progress\<close> and \<open>totalViews\<close> of every row with this id and owner.  The reads
  \<open>video.progress[kidId]?.watched\<close>, \<open>?.voiceRecordings\<close>, \<open>?.voiceRecording\<close> and \<open>?.watchedAt\<close>
  give \<open>undefined\<close> both for a missing key and for an inherited one, whose value has none of
  these fields; the assignment \<open>video.progress[kidId] = { ... }\<close> is \<open>js_set\<close>.
\<close>

definition markVideoWatched ::
  "string \<Rightarrow> string \<Rightarrow> string \<Rightarrow> VoiceRecording \<Rightarrow> string \<Rightarrow> DB \<Rightarrow> (error + Video) \<times> DB" where
  "markVideoWatched now videoId kidId recording userId db =
     (case getVideo videoId userId db of
        None \<Rightarrow> (Inl VideoNotFound, db)
      | Some video \<Rightarrow>
          let alreadyWatched = (case progress video kidId of None \<Rightarrow> False | Some p \<Rightarrow> watched p) in
          if \<not> alreadyWatched \<and> totalViews video \<ge> MAX_VIDEO_VIEWS then (Inl MaxViewsReached, db)
          else
            let existingRecordings =
                  (case progress video kidId of None \<Rightarrow> []
                   | Some p \<Rightarrow> (case voiceRecordings p of None \<Rightarrow> [] | Some rs \<Rightarrow> rs));
                legacySingle =
                  (case progress video kidId of None \<Rightarrow> None | Some p \<Rightarrow> voiceRecording p);
                migrated =
                  (case legacySingle of
                     None \<Rightarrow> existingRecordings
                   | Some l \<Rightarrow> if length existingRecordings = 0 then existingRecordings @ [l]
                               else existingRecordings);
                pushed = migrated @ [recording];
                previousWatchedAt =
                  (case progress video kidId of None \<Rightarrow> None | Some p \<Rightarrow> watchedAt p);
                entry = \<lparr> watched = True,
                          watchedAt = Some (str_or previousWatchedAt now),
                          voiceRecording = None,
                          voiceRecordings = Some pushed,
                          parentReviewed = Some False,
                          lastPosition = None,
                          videoDuration = None,
                          dailyWatchTime = None \<rparr>;
                progress' = js_set (progress video) kidId entry;
                totalViews' = (if \<not> alreadyWatched then int_or (totalViews video) 0 + 1
                               else totalViews video);
                video' = video\<lparr> progress := progress', totalViews := totalViews' \<rparr>
            in (Inr video',
                db\<lparr> videosTable :=
                      map (\<lambda>r. if video_id r = videoId \<and> video_userId r = userId
                                then r\<lparr> progress := progress', totalViews := totalViews' \<rparr>
                                else r)
                          (videosTable db) \<rparr>))"

text \<open>\<open>markVideoWatchedPublic\<close> forwards to \<open>markVideoWatched\<close> with the kid's owner.\<close>

definition markVideoWatchedPublic ::
  "string \<Rightarrow> string \<Rightarrow> string \<Rightarrow> VoiceRecording \<Rightarrow> string \<Rightarrow> DB \<Rightarrow> (error + Video) \<times> DB" where
  "markVideoWatchedPublic now videoId kidId recording ownerUserId db =
     markVideoWatched now videoId kidId recording ownerUserId db"

text \<open>
  Route \<open>POST /api/videos/:videoId/watched/:kidId\<close>.  The body's \<open>voiceRecording\<close> is \<open>None\<close>
  when it is missing or its fields have the wrong types.
\<close>

definition post_video_watched ::
  "string \<Rightarrow> string \<Rightarrow> string \<Rightarrow> string \<Rightarrow> VoiceRecording option \<Rightarrow> DB \<Rightarrow> Video Response \<times> DB" where
  "post_video_watched now userId videoId kidId body db =
     (case body of
        None \<Rightarrow>
          (ErrorJson 400 ''A valid voice recording with duration > 0 is required to complete the video'', db)
      | Some recording \<Rightarrow>
          if duration recording \<le> 0 then
            (ErrorJson 400 ''A valid voice recording with duration > 0 is required to complete the video'', db)
          else
            (case markVideoWatched now videoId kidId recording userId db of
               (Inl e, db') \<Rightarrow> (ErrorJson 400 (error_message e), db')
             | (Inr video, db') \<Rightarrow> (Json 200 video, db')))"

text \<open>Observers used to state properties of one kid's progress entry on a video.\<close>

definition recordingsOf :: "Video \<Rightarrow> string \<Rightarrow> VoiceRecording list" where
  "recordingsOf video kidId =
     (case progress video kidId of None \<Rightarrow> []
      | Some p \<Rightarrow> (case voiceRecordings p of None \<Rightarrow> [] | Some rs \<Rightarrow> rs))"

definition watchedAtOf :: "Video \<Rightarrow> string \<Rightarrow> string option" where
  "watchedAtOf video kidId =
     (case progress video kidId of None \<Rightarrow> None | Some p \<Rightarrow> watchedAt p)"

definition legacyRecordingOf :: "Video \<Rightarrow> string \<Rightarrow> VoiceRecording option" where
  "legacyRecordingOf video kidId =
     (case progress video kidId of None \<Rightarrow> None | Some p \<Rightarrow> voiceRecording p)"

definition completedBy :: "Video \<Rightarrow> string \<Rightarrow> bool" where
  "completedBy video kidId = (case progress video kidId of None \<Rightarrow> False | Some p \<Rightarrow> watched p)"

text \<open>The progress literal \<open>{ watched: false }\<close>.\<close>

definition unwatched :: VideoProgress where
  "unwatched = \<lparr> watched = False, watchedAt = None, voiceRecording = None,
                 voiceRecordings = None, parentReviewed = None, lastPosition = None,
                 videoDuration = None, dailyWatchTime = None \<rparr>"



section \<open>Storage: kids and folders (server/storage.ts)\<close>

definition getKids :: "string \<Rightarrow> DB \<Rightarrow> Kid list" where
  "getKids userId db = map Kid.truncate (filter (\<lambda>r. kid_userId r = userId) (kidsTable db))"

definition deleteKid :: "string \<Rightarrow> string \<Rightarrow> DB \<Rightarrow> bool \<times> DB" where
  "deleteKid ident userId db =
     (True, db\<lparr> kidsTable := filter (\<lambda>r. \<not> (kid_id r = ident \<and> kid_userId r = userId)) (kidsTable db) \<rparr>)"

definition getFolder :: "string \<Rightarrow> string \<Rightarrow> DB \<Rightarrow> Folder option" where
  "getFolder ident userId db =
     map_option Folder.truncate
       (find (\<lambda>r. folder_id r = ident \<and> folder_userId r = userId) (foldersTable db))"

text \<open>The strings the store can hold: a string with U+0000 makes the writing statement
  throw.\<close>

datatype StoreException = InvalidByteSequence

definition storableText :: "string \<Rightarrow> bool" where
  "storableText t = (CHR 0x00 \<notin> set t)"

text \<open>\<open>updates\<close> is \<open>Partial<InsertFolder>\<close>: an optional new name.  \<open>Inl\<close> is the exception of
  the update statement; nothing is written then.\<close>

definition updateFolder ::
  "string \<Rightarrow> string \<Rightarrow> string option \<Rightarrow> DB \<Rightarrow> (StoreException + Folder option) \<times> DB" where
  "updateFolder ident userId updates db =
     (case getFolder ident userId db of
        None \<Rightarrow> (Inr None, db)
      | Some existing \<Rightarrow>
          let updated = (case updates of None \<Rightarrow> existing | Some n \<Rightarrow> existing\<lparr> folder_name := n \<rparr>)
          in if \<not> storableText (folder_name updated) then (Inl InvalidByteSequence, db)
             else
               (Inr (Some updated),
                db\<lparr> foldersTable :=
                      map (\<lambda>r. if folder_id r = ident \<and> folder_userId r = userId
                                then r\<lparr> folder_name := folder_name updated \<rparr> else r)
                          (foldersTable db) \<rparr>))"

definition deleteFolder :: "string \<Rightarrow> string \<Rightarrow> DB \<Rightarrow> bool \<times> DB" where
  "deleteFolder ident userId db =
     (True,
      db\<lparr> videosTable :=
            map (\<lambda>r. if video_folderId r = Some ident \<and> video_userId r = userId
                      then r\<lparr> video_folderId := None \<rparr> else r)
                (videosTable db),
          foldersTable :=
            filter (\<lambda>r. \<not> (folder_id r = ident \<and> folder_userId r = userId)) (foldersTable db) \<rparr>)"

definition deleteVideo :: "string \<Rightarrow> string \<Rightarrow> DB \<Rightarrow> bool \<times> DB" where
  "deleteVideo ident userId db =
     (True, db\<lparr> videosTable := filter (\<lambda>r. \<not> (video_id r = ident \<and> video_userId r = userId)) (videosTable db) \<rparr>)"

section \<open>Routes for kids, folders and videos (server/routes.ts)\<close>

text \<open>\<open>String.prototype.trim\<close> on the characters a \<open>char\<close> can hold: tab, line feed, vertical
  tab, form feed, carriage return, space and no-break space.\<close>

definition whitespace :: "char \<Rightarrow> bool" where
  "whitespace c = (c \<in> set [CHR 0x09, CHR 0x0A, CHR 0x0B, CHR 0x0C, CHR 0x0D, CHR 0x20, CHR 0xA0])"

definition trim :: "string \<Rightarrow> string" where
  "trim s = rev (dropWhile whitespace (rev (dropWhile whitespace s)))"

definition startsWith :: "string \<Rightarrow> string \<Rightarrow> bool" where
  "startsWith s pat = (take (length pat) s = pat)"

definition delete_kid :: "string \<Rightarrow> string \<Rightarrow> DB \<Rightarrow> unit Response \<times> DB" where
  "delete_kid userId ident db =
     (case deleteKid ident userId db of
        (deleted, db') \<Rightarrow>
          if \<not> deleted then (ErrorJson 404 ''Kid not found'', db') else (Empty 204, db'))"

definition delete_video :: "string \<Rightarrow> string \<Rightarrow> DB \<Rightarrow> unit Response \<times> DB" where
  "delete_video userId ident db =
     (case deleteVideo ident userId db of
        (deleted, db') \<Rightarrow>
          if \<not> deleted then (ErrorJson 404 ''Video not found'', db') else (Empty 204, db'))"

definition delete_folder :: "string \<Rightarrow> string \<Rightarrow> DB \<Rightarrow> unit Response \<times> DB" where
  "delete_folder userId ident db =
     (case deleteFolder ident userId db of (_, db') \<Rightarrow> (Empty 204, db'))"

text \<open>Route \<open>PATCH /api/folders/:id\<close>.  The body's \<open>name\<close> is \<open>None\<close> when it is missing or
  not a string.  The route's \<open>catch\<close> answers 500.\<close>

definition patch_folder :: "string \<Rightarrow> string \<Rightarrow> string option \<Rightarrow> DB \<Rightarrow> Folder Response \<times> DB" where
  "patch_folder userId ident name_field db =
     (case name_field of
        None \<Rightarrow> (ErrorJson 400 ''Name is required'', db)
      | Some n \<Rightarrow>
          if n = [] \<or> length (trim n) = 0 then (ErrorJson 400 ''Name is required'', db)
          else
            (case updateFolder ident userId (Some (trim n)) db of
               (Inl _, db') \<Rightarrow> (ErrorJson 500 ''Failed to update folder'', db')
             | (Inr None, db') \<Rightarrow> (ErrorJson 404 ''Folder not found'', db')
             | (Inr (Some folder), db') \<Rightarrow> (Json 200 folder, db')))"

section \<open>Storage: system-managed folders (server/storage.ts)\<close>

text \<open>The storage layer takes every folder whose name starts with \<open>__global_\<close> for a shadow
  folder of the sync: the playlist listing hides it and the cleanup deletes it together with
  the owner's videos inside it.\<close>

definition getGlobalFolders :: "string \<Rightarrow> DB \<Rightarrow> Folder list" where
  "getGlobalFolders masterUserId db =
     map Folder.truncate
       (filter (\<lambda>r. \<not> startsWith (folder_name r) ''__global_'')
          (filter (\<lambda>r. folder_userId r = masterUserId) (foldersTable db)))"

definition cleanupGlobalData :: "string \<Rightarrow> DB \<Rightarrow> DB" where
  "cleanupGlobalData userId db =
     (let allFolders = filter (\<lambda>f. folder_userId f = userId) (foldersTable db);
          globalFolders = filter (\<lambda>f. startsWith (folder_name f) ''__global_'') allFolders;
          db1 = foldl (\<lambda>d gf.
                         d\<lparr> videosTable :=
                              filter (\<lambda>r. \<not> (video_userId r = userId
                                               \<and> video_folderId r = Some (folder_id gf)))
                                     (videosTable d),
                            foldersTable :=
                              filter (\<lambda>f. folder_id f \<noteq> folder_id gf) (foldersTable d) \<rparr>)
                      db globalFolders
      in db1\<lparr> globalSubscriptionsTable :=
                filter (\<lambda>s. sub_userId s \<noteq> userId) (globalSubscriptionsTable db1) \<rparr>)"

section \<open>URL classifier (shared/schema.ts)\<close>

text \<open>
  The platform's \<open>URL\<close> constructor is not code of this repository: it is a parameter
  \<open>newURL\<close>, which gives the parsed fields or \<open>None\<close> where the constructor throws.
  \<open>searchParams\<close> are the decoded query pairs in order.
\<close>

record ParsedURL =
  hostname :: string
  pathname :: string
  searchParams :: "(string \<times> string) list"

text \<open>\<open>toLowerCase\<close> on host names, which the parser gives in ASCII.\<close>

definition toLowerCase :: "string \<Rightarrow> string" where
  "toLowerCase s =
     map (\<lambda>c. case map_of (zip ''ABCDEFGHIJKLMNOPQRSTUVWXYZ'' ''abcdefghijklmnopqrstuvwxyz'') c of
                 None \<Rightarrow> c | Some d \<Rightarrow> d) s"

text \<open>\<open>s.replace(pat, rep)\<close> with a string pattern: the first occurrence only.\<close>

fun replace_first :: "string \<Rightarrow> string \<Rightarrow> string \<Rightarrow> string" where
  "replace_first pat rep [] = (if pat = [] then rep else [])"
| "replace_first pat rep (c # cs) =
     (if take (length pat) (c # cs) = pat then rep @ drop (length pat) (c # cs)
      else c # replace_first pat rep cs)"

fun str_includes :: "string \<Rightarrow> string \<Rightarrow> bool" where
  "str_includes [] pat = (pat = [])"
| "str_includes (c # cs) pat = (take (length pat) (c # cs) = pat \<or> str_includes cs pat)"

fun js_split :: "char \<Rightarrow> string \<Rightarrow> string list" where
  "js_split sep [] = [[]]"
| "js_split sep (c # cs) =
     (if c = sep then [] # js_split sep cs
      else (case js_split sep cs of [] \<Rightarrow> [[c]] | x # xs \<Rightarrow> (c # x) # xs))"

text \<open>\<open>u.pathname.split("/").filter(Boolean)\<close>.\<close>

definition pathParts :: "ParsedURL \<Rightarrow> string list" where
  "pathParts u = filter (\<lambda>p. p \<noteq> []) (js_split (CHR ''/'') (pathname u))"

text \<open>\<open>u.hostname.replace("www.", "").toLowerCase()\<close>.\<close>

definition hostOf :: "ParsedURL \<Rightarrow> string" where
  "hostOf u = toLowerCase (replace_first ''www.'' [] (hostname u))"

fun indexOf :: "'a list \<Rightarrow> 'a \<Rightarrow> nat option" where
  "indexOf [] x = None"
| "indexOf (y # ys) x = (if y = x then Some 0 else map_option Suc (indexOf ys x))"

definition at_index :: "'a list \<Rightarrow> nat \<Rightarrow> 'a option" where
  "at_index xs i = (if i < length xs then Some (xs ! i) else None)"

text \<open>The regular expression \<open>/^\d+$/\<close>.\<close>

definition all_digits :: "string \<Rightarrow> bool" where
  "all_digits s = (s \<noteq> [] \<and> list_all (\<lambda>c. c \<in> set ''0123456789'') s)"

text \<open>The body of \<open>getYouTubeId\<close> after the URL is parsed.\<close>

definition youTubeIdOf :: "ParsedURL \<Rightarrow> string option" where
  "youTubeIdOf u =
     (let host = hostOf u in
      if host = ''youtu.be'' then at_index (pathParts u) 0
      else if str_includes host ''youtube.com'' then
        (let v = map_of (searchParams u) ''v'';
             parts = pathParts u
         in if v \<noteq> None \<and> v \<noteq> Some [] then v
            else if at_index parts 0 = Some ''shorts'' \<and> at_index parts 1 \<noteq> None then at_index parts 1
            else if at_index parts 0 = Some ''embed'' \<and> at_index parts 1 \<noteq> None then at_index parts 1
            else None)
      else None)"

definition getYouTubeId :: "(string \<Rightarrow> ParsedURL option) \<Rightarrow> string \<Rightarrow> string option" where
  "getYouTubeId newURL url = (case newURL (trim url) of None \<Rightarrow> None | Some u \<Rightarrow> youTubeIdOf u)"

text \<open>The body of \<open>getTikTokId\<close> after the URL is parsed.\<close>

definition tikTokIdOf :: "ParsedURL \<Rightarrow> string option" where
  "tikTokIdOf u =
     (let host = hostOf u in
      if host = ''tiktok.com'' \<or> host = ''m.tiktok.com'' then
        (let parts = pathParts u in
         case indexOf parts ''video'' of
           None \<Rightarrow> None
         | Some videoIndex \<Rightarrow>
             (case at_index parts (videoIndex + 1) of
                None \<Rightarrow> None
              | Some videoId \<Rightarrow> if all_digits videoId then Some videoId else None))
      else None)"

definition getTikTokId :: "(string \<Rightarrow> ParsedURL option) \<Rightarrow> string \<Rightarrow> string option" where
  "getTikTokId newURL url = (case newURL (trim url) of None \<Rightarrow> None | Some u \<Rightarrow> tikTokIdOf u)"

definition getVideoInfo ::
  "(string \<Rightarrow> ParsedURL option) \<Rightarrow> string \<Rightarrow> (VideoPlatform \<times> string) option" where
  "getVideoInfo newURL url =
     (let youtubeId = getYouTubeId newURL url in
      if youtubeId \<noteq> None \<and> youtubeId \<noteq> Some [] then map_option (Pair youtube) youtubeId
      else
        (let tiktokId = getTikTokId newURL url in
         if tiktokId \<noteq> None \<and> tiktokId \<noteq> Some [] then map_option (Pair tiktok) tiktokId
         else None))"

text \<open>\<open>isTikTokShortUrl\<close> of the routes: the hosts and paths of TikTok short links.\<close>

definition isTikTokShortUrl :: "(string \<Rightarrow> ParsedURL option) \<Rightarrow> string \<Rightarrow> bool" where
  "isTikTokShortUrl newURL url =
     (case newURL url of
        None \<Rightarrow> False
      | Some u \<Rightarrow>
          hostOf u = ''vm.tiktok.com'' \<or> (hostOf u = ''tiktok.com'' \<and> startsWith (pathname u) ''/t/''))"

section \<open>Storage: video creation and the global playlist sync (server/storage.ts)\<close>

text \<open>Inserts fail on a repeated primary key.\<close>

definition insertVideo :: "VideoRow \<Rightarrow> DB \<Rightarrow> error + DB" where
  "insertVideo row db =
     (if video_id row \<in> set (map video_id (videosTable db)) then Inl DuplicateKey
      else Inr (db\<lparr> videosTable := videosTable db @ [row] \<rparr>))"

definition insertFolder :: "FolderRow \<Rightarrow> DB \<Rightarrow> error + DB" where
  "insertFolder row db =
     (if folder_id row \<in> set (map folder_id (foldersTable db)) then Inl DuplicateKey
      else Inr (db\<lparr> foldersTable := foldersTable db @ [row] \<rparr>))"

text \<open>The loops \<open>for (const kid of targetKids) { assigned[kid.id] = true; progress[kid.id] =
  { watched: false } }\<close>.\<close>

definition assignAll :: "Kid list \<Rightarrow> (string \<rightharpoonup> bool)" where
  "assignAll targetKids = foldl (\<lambda>m k. js_set m (kid_id k) True) Map.empty targetKids"

definition progressAll :: "Kid list \<Rightarrow> (string \<rightharpoonup> VideoProgress)" where
  "progressAll targetKids = foldl (\<lambda>m k. js_set m (kid_id k) unwatched) Map.empty targetKids"

text \<open>
  \<open>createVideo\<close>.  \<open>newId\<close> is the identifier drawn from the clock and the random source.
  \<open>kidIds\<close>, \<open>folderId\<close> and \<open>priority\<close> are optional arguments.
\<close>

definition createVideo ::
  "(string \<Rightarrow> ParsedURL option) \<Rightarrow> string \<Rightarrow> string \<Rightarrow> string list option \<Rightarrow> Kid list \<Rightarrow> string
     \<Rightarrow> string option \<Rightarrow> int option \<Rightarrow> DB \<Rightarrow> (error + Video) \<times> DB" where
  "createVideo newURL newId url kidIds allKids userId folderId priority db =
     (case getVideoInfo newURL url of
        None \<Rightarrow> (Inl InvalidVideoUrl, db)
      | Some (pf, videoId) \<Rightarrow>
          let existing = filter (\<lambda>r. ytId r = videoId \<and> video_userId r = userId) (videosTable db) in
          if length existing > 0 then (Inl AlreadyInLibrary, db)
          else
            let targetKids =
                  (case kidIds of
                     None \<Rightarrow> allKids
                   | Some ks \<Rightarrow> if length ks > 0 then filter (\<lambda>k. kid_id k \<in> set ks) allKids
                                else allKids);
                videoPriority = (case priority of None \<Rightarrow> VIDEO_PRIORITY_DEFAULT | Some p \<Rightarrow> p);
                folder = (case folderId of None \<Rightarrow> None | Some f \<Rightarrow> if f = [] then None else Some f);
                video = \<lparr> video_id = newId, video_url = url, ytId = videoId, platform = pf,
                          video_folderId = folder, video_priority = videoPriority,
                          assigned = assignAll targetKids, progress = progressAll targetKids,
                          totalViews = 0 \<rparr>
            in (case insertVideo (Video.extend video (VideoRow.fields userId)) db of
                  Inl e \<Rightarrow> (Inl e, db)
                | Inr db' \<Rightarrow> (Inr video, db')))"

text \<open>The invariant of the data model: within one owner no two videos share the same
  platform and platform video id.\<close>

definition uniqueVideos :: "string \<Rightarrow> DB \<Rightarrow> bool" where
  "uniqueVideos owner db =
     distinct (map (\<lambda>r. (platform r, ytId r)) (filter (\<lambda>r. video_userId r = owner) (videosTable db)))"

text \<open>The key the dedup of \<open>createVideo\<close> uses: within one owner no two videos share a
  platform video id.\<close>

definition uniqueYtIds :: "string \<Rightarrow> DB \<Rightarrow> bool" where
  "uniqueYtIds owner db =
     distinct (map ytId (filter (\<lambda>r. video_userId r = owner) (videosTable db)))"

definition getGlobalVideos :: "string \<Rightarrow> string \<Rightarrow> DB \<Rightarrow> Video list" where
  "getGlobalVideos masterUserId folderId db =
     map Video.truncate
       (filter (\<lambda>r. video_userId r = masterUserId \<and> video_folderId r = Some folderId) (videosTable db))"

text \<open>
  The loop of \<open>syncSubscription\<close> over the master's videos.  \<open>newId n\<close> is the \<open>n\<close>-th
  identifier drawn from the clock and the random source; \<open>existingYtIds\<close> is computed once,
  before the loop.
\<close>

fun syncLoop ::
  "(nat \<Rightarrow> string) \<Rightarrow> nat \<Rightarrow> string set \<Rightarrow> Kid list \<Rightarrow> string \<Rightarrow> string \<Rightarrow> Video list \<Rightarrow> DB
     \<Rightarrow> error + DB" where
  "syncLoop newId n existingYtIds targetKids userId localFolderId [] db = Inr db"
| "syncLoop newId n existingYtIds targetKids userId localFolderId (mv # rest) db =
     (if ytId mv \<in> existingYtIds
      then syncLoop newId n existingYtIds targetKids userId localFolderId rest db
      else
        (case insertVideo
                \<lparr> video_id = newId n, video_url = video_url mv, ytId = ytId mv,
                  platform = platform mv, video_folderId = Some localFolderId,
                  video_priority = video_priority mv, assigned = assignAll targetKids,
                  progress = progressAll targetKids, totalViews = 0, video_userId = userId \<rparr> db of
           Inl e \<Rightarrow> Inl e
         | Inr db' \<Rightarrow> syncLoop newId (Suc n) existingYtIds targetKids userId localFolderId rest db'))"

definition syncSubscription :: "(nat \<Rightarrow> string) \<Rightarrow> string \<Rightarrow> string \<Rightarrow> string \<Rightarrow> DB \<Rightarrow> error + DB" where
  "syncSubscription newId userId masterFolderId masterUserId db =
     (case filter (\<lambda>s. sub_userId s = userId \<and> sub_masterFolderId s = masterFolderId)
                  (globalSubscriptionsTable db) of
        [] \<Rightarrow> Inr db
      | sub # _ \<Rightarrow>
          let kidIds = sub_kidIds sub;
              allKids = getKids userId db;
              targetKids = (if length kidIds > 0 then filter (\<lambda>k. kid_id k \<in> set kidIds) allKids
                            else allKids);
              masterFolder = filter (\<lambda>f. folder_id f = masterFolderId \<and> folder_userId f = masterUserId)
                                    (foldersTable db)
          in if length masterFolder = 0 then Inr db
             else
               let localFolderName = ''__global_'' @ masterFolderId;
                   localFolderRows = filter (\<lambda>f. folder_userId f = userId \<and> folder_name f = localFolderName)
                                            (foldersTable db)
               in (case (case localFolderRows of
                           [] \<Rightarrow> map_sum id (Pair (newId 0))
                                   (insertFolder \<lparr> folder_id = newId 0, folder_name = localFolderName,
                                                  folder_userId = userId \<rparr> db)
                         | f # _ \<Rightarrow> Inr (folder_id f, db)) of
                     Inl e \<Rightarrow> Inl e
                   | Inr (localFolderId, db1) \<Rightarrow>
                       let masterVideos = getGlobalVideos masterUserId masterFolderId db1;
                           existingLocal = filter (\<lambda>r. video_userId r = userId
                                                        \<and> video_folderId r = Some localFolderId)
                                                  (videosTable db1);
                           existingYtIds = set (map ytId existingLocal)
                       in syncLoop newId 1 existingYtIds targetKids userId localFolderId masterVideos db1))"

text \<open>The videos of a subscriber's shadow folder, as \<open>syncSubscription\<close> selects them.\<close>

definition shadowVideos :: "string \<Rightarrow> string \<Rightarrow> DB \<Rightarrow> VideoRow list" where
  "shadowVideos userId masterFolderId db =
     (case filter (\<lambda>f. folder_userId f = userId \<and> folder_name f = ''__global_'' @ masterFolderId)
                  (foldersTable db) of
        [] \<Rightarrow> []
      | f # _ \<Rightarrow> filter (\<lambda>r. video_userId r = userId \<and> video_folderId r = Some (folder_id f))
                       (videosTable db))"

section \<open>A store with nothing left to sync\<close>

text \<open>The state a successful \<open>syncSubscription\<close> leaves behind: no subscription, or no master
  folder, or a shadow folder whose videos cover the platform video ids of the master folder.\<close>

definition synced :: "string \<Rightarrow> string \<Rightarrow> string \<Rightarrow> DB \<Rightarrow> bool" where
  "synced userId masterFolderId masterUserId db =
     (filter (\<lambda>s. sub_userId s = userId \<and> sub_masterFolderId s = masterFolderId)
             (globalSubscriptionsTable db) = []
      \<or> filter (\<lambda>f. folder_id f = masterFolderId \<and> folder_userId f = masterUserId) (foldersTable db) = []
      \<or> (\<exists>f rest.
            filter (\<lambda>f. folder_userId f = userId \<and> folder_name f = ''__global_'' @ masterFolderId)
                   (foldersTable db) = f # rest
          \<and> (\<forall>r\<in>set (videosTable db).
                video_userId r = masterUserId \<and> video_folderId r = Some masterFolderId \<longrightarrow>
                ytId r \<in> ytId ` {r' \<in> set (videosTable db).
                                  video_userId r' = userId \<and> video_folderId r' = Some (folder_id f)})))"

section \<open>Example data\<close>

text \<open>One owner \<open>u1\<close> with a kid \<open>k1\<close>, a folder \<open>f1\<close> and a video \<open>v1\<close>; the video's progress
  map and view counter vary between the examples.\<close>

definition rec0 :: VoiceRecording where
  "rec0 = \<lparr> recordedAt = ''2026-01-05T09:00:00.000Z'', duration = 7, audioData = None \<rparr>"

definition rec1 :: VoiceRecording where
  "rec1 = \<lparr> recordedAt = ''2026-02-01T10:00:00.000Z'', duration = 3, audioData = None \<rparr>"

definition progress_watched :: VideoProgress where
  "progress_watched = unwatched \<lparr> watched := True,
      watchedAt := Some ''2026-01-05T09:00:01.000Z'', voiceRecordings := Some [rec0],
      parentReviewed := Some True \<rparr>"


definition video_example :: "(string \<rightharpoonup> VideoProgress) \<Rightarrow> int \<Rightarrow> VideoRow" where
  "video_example pr tv =
     \<lparr> video_id = ''v1'', video_url = ''https://youtu.be/abc123'', ytId = ''abc123'',
       platform = youtube, video_folderId = Some ''f1'', video_priority = 5,
       assigned = [''k1'' \<mapsto> True], progress = pr, totalViews = tv, video_userId = ''u1'' \<rparr>"

definition db_example :: "(string \<rightharpoonup> VideoProgress) \<Rightarrow> int \<Rightarrow> DB" where
  "db_example pr tv =
     \<lparr> kidsTable = [\<lparr> kid_id = ''k1'', kid_name = ''Ann'', kid_avatar = ''girl'', kid_userId = ''u1'' \<rparr>],
       foldersTable = [\<lparr> folder_id = ''f1'', folder_name = ''Cartoons'', folder_userId = ''u1'' \<rparr>],
       videosTable = [video_example pr tv],
       globalSubscriptionsTable = [] \<rparr>"

text \<open>The fields the \<open>URL\<close> constructor gives for the URLs of the examples; every other
  string is taken as unparsable.\<close>

definition newURL_example :: "string \<Rightarrow> ParsedURL option" where
  "newURL_example =
     map_of
       [(''https://youtu.be/abc123'',
           \<lparr> hostname = ''youtu.be'', pathname = ''/abc123'', searchParams = [] \<rparr>),
        (''https://youtu.be/123'',
           \<lparr> hostname = ''youtu.be'', pathname = ''/123'', searchParams = [] \<rparr>),
        (''https://www.youtube.com/watch?v=xyz'',
           \<lparr> hostname = ''www.youtube.com'', pathname = ''/watch'', searchParams = [(''v'', ''xyz'')] \<rparr>),
        (''https://www.tiktok.com/@user/video/456'',
           \<lparr> hostname = ''www.tiktok.com'', pathname = ''/@user/video/456'', searchParams = [] \<rparr>),
        (''https://vm.tiktok.com/ZMabc/'',
           \<lparr> hostname = ''vm.tiktok.com'', pathname = ''/ZMabc/'', searchParams = [] \<rparr>),
        (''https://www.tiktok.com/t/ZTabc/'',
           \<lparr> hostname = ''www.tiktok.com'', pathname = ''/t/ZTabc/'', searchParams = [] \<rparr>),
        (''https://www.tiktok.com/t/video/123'',
           \<lparr> hostname = ''www.tiktok.com'', pathname = ''/t/video/123'', searchParams = [] \<rparr>),
        (''https://www.tiktok.com/t/video/123/456'',
           \<lparr> hostname = ''www.tiktok.com'', pathname = ''/t/video/123/456'', searchParams = [] \<rparr>)]"

text \<open>An owner whose only video is a TikTok video with the platform video id \<open>123\<close>.\<close>

definition db_tiktok :: DB where
  "db_tiktok =
     \<lparr> kidsTable = [],
       foldersTable = [],
       videosTable =
         [\<lparr> video_id = ''v9'', video_url = ''https://www.tiktok.com/@user/video/123'', ytId = ''123'',
            platform = tiktok, video_folderId = None, video_priority = 5,
            assigned = Map.empty, progress = Map.empty, totalViews = 0, video_userId = ''u1'' \<rparr>],
       globalSubscriptionsTable = [] \<rparr>"

text \<open>A master account with a folder \<open>mf1\<close> of two videos, and a subscriber \<open>u1\<close> with one kid
  and a subscription to that folder; a supply of distinct identifiers.\<close>

definition ids_example :: "nat \<Rightarrow> string" where
  "ids_example n = ''id_'' @ replicate n (CHR ''x'')"

definition master_video :: "string \<Rightarrow> string \<Rightarrow> VideoRow" where
  "master_video ident yt =
     \<lparr> video_id = ident, video_url = ''https://youtu.be/'' @ yt, ytId = yt, platform = youtube,
       video_folderId = Some ''mf1'', video_priority = 3, assigned = Map.empty,
       progress = Map.empty, totalViews = 0, video_userId = ''master'' \<rparr>"

definition db_sync :: DB where
  "db_sync =
     \<lparr> kidsTable = [\<lparr> kid_id = ''k1'', kid_name = ''Ann'', kid_avatar = ''girl'', kid_userId = ''u1'' \<rparr>],
       foldersTable = [\<lparr> folder_id = ''mf1'', folder_name = ''Science'', folder_userId = ''master'' \<rparr>],
       videosTable = [master_video ''mv1'' ''aaa'', master_video ''mv2'' ''bbb''],
       globalSubscriptionsTable =
         [\<lparr> sub_id = ''s1'', sub_userId = ''u1'', sub_masterFolderId = ''mf1'', sub_kidIds = [],
            sub_createdAt = None \<rparr>] \<rparr>"

section \<open>Helper lemmas\<close>

lemma find_map_update:
  assumes "\<And>r. P r \<Longrightarrow> Q r" and "\<And>r. P (g r) = P r"
  shows "find P (map (\<lambda>r. if Q r then g r else r) xs) = map_option g (find P xs)"
  using assms by (induction xs) auto

lemma truncate_update_progress_totalViews:
  "Video.truncate (r\<lparr> progress := pr, totalViews := tv \<rparr>)
     = (Video.truncate r)\<lparr> progress := pr, totalViews := tv \<rparr>"
  by (simp add: Video.truncate_def)

lemma getVideo_after_update:
  "getVideo videoId userId
     (db\<lparr> videosTable :=
           map (\<lambda>r. if video_id r = videoId \<and> video_userId r = userId
                     then r\<lparr> progress := pr, totalViews := tv \<rparr> else r)
               (videosTable db) \<rparr>)
   = map_option (\<lambda>v. v\<lparr> progress := pr, totalViews := tv \<rparr>) (getVideo videoId userId db)"
proof -
  let ?P = "\<lambda>r::VideoRow. video_id r = videoId \<and> video_userId r = userId"
  let ?g = "\<lambda>r::VideoRow. r\<lparr> progress := pr, totalViews := tv \<rparr>"
  have "find ?P (map (\<lambda>r. if ?P r then ?g r else r) (videosTable db))
          = map_option ?g (find ?P (videosTable db))"
    by (rule find_map_update) simp_all
  then show ?thesis
    by (simp add: getVideo_def option.map_comp comp_def truncate_update_progress_totalViews)
qed


lemma getVideo_db_example:
  "getVideo ''v1'' ''u1'' (db_example pr tv) = Some (Video.truncate (video_example pr tv))"
  by (simp add: getVideo_def db_example_def video_example_def)


section \<open>The view cap\<close>

text \<open>
  Claim C1.  When a kid who has not completed a video asks to complete it and the video's
  \<open>totalViews\<close> equals the cap of 4, \<open>markVideoWatched\<close> answers with the view-cap error and
  returns the store as it was: no recording is appended, no progress entry is made or changed,
  and \<open>totalViews\<close> is still 4.
\<close>

theorem markVideoWatched_view_cap:
  assumes "getVideo videoId userId db = Some video"
      and "\<not> (\<exists>p. progress video kidId = Some p \<and> watched p)"
      and "totalViews video = MAX_VIDEO_VIEWS"
  shows "markVideoWatched now videoId kidId recording userId db = (Inl MaxViewsReached, db)
       \<and> getVideo videoId userId (snd (markVideoWatched now videoId kidId recording userId db))
           = Some video
       \<and> totalViews video = 4"
  using assms
  by (auto simp: markVideoWatched_def MAX_VIDEO_VIEWS_def split: option.splits)

theorem markVideoWatched_view_cap_witness:
  "getVideo ''v1'' ''u1'' (db_example [''k1'' \<mapsto> progress_watched] 4)
      = Some (Video.truncate (video_example [''k1'' \<mapsto> progress_watched] 4))
   \<and> \<not> (\<exists>p. progress (Video.truncate (video_example [''k1'' \<mapsto> progress_watched] 4)) ''k5'' = Some p
            \<and> watched p)
   \<and> totalViews (Video.truncate (video_example [''k1'' \<mapsto> progress_watched] 4)) = MAX_VIDEO_VIEWS
   \<and> markVideoWatched ''2026-02-01T10:00:01.000Z'' ''v1'' ''k5'' rec1 ''u1''
        (db_example [''k1'' \<mapsto> progress_watched] 4)
      = (Inl MaxViewsReached, db_example [''k1'' \<mapsto> progress_watched] 4)"
proof -
  let ?V = "Video.truncate (video_example [''k1'' \<mapsto> progress_watched] 4)"
  have h1: "getVideo ''v1'' ''u1'' (db_example [''k1'' \<mapsto> progress_watched] 4) = Some ?V"
    by (rule getVideo_db_example)
  have h2: "\<not> (\<exists>p. progress ?V ''k5'' = Some p \<and> watched p)"
    by (simp add: Video.truncate_def video_example_def)
  have h3: "totalViews ?V = MAX_VIDEO_VIEWS"
    by (simp add: Video.truncate_def video_example_def MAX_VIDEO_VIEWS_def)
  from markVideoWatched_view_cap [OF h1 h2 h3, of "''2026-02-01T10:00:01.000Z''" rec1]
  have c: "markVideoWatched ''2026-02-01T10:00:01.000Z'' ''v1'' ''k5'' rec1 ''u1''
             (db_example [''k1'' \<mapsto> progress_watched] 4)
           = (Inl MaxViewsReached, db_example [''k1'' \<mapsto> progress_watched] 4)"
    by (rule conjunct1)
  from h1 h2 h3 c show ?thesis
    by (intro conjI)
qed

section \<open>Completing a video again\<close>




section \<open>Completion by any kid id\<close>

text \<open>
  Claim C10, as the code has it.  \<open>markVideoWatched\<close> asks nothing of the kid id: the
  hypotheses mention neither the kids table nor the video's \<open>assigned\<close> map.  Take a video of
  the caller's owner scope with \<open>totalViews\<close> under the cap, and any kid id and recording whose
  strings the store can hold (no U+0000), the id being other than \<open>__proto__\<close> unless an entry
  is stored under it.  The call succeeds and stores for that id the entry with
  \<open>watched = true\<close>, \<open>parentReviewed = false\<close>, \<open>watchedAt\<close> the earlier non-empty value or else
  the current time, and \<open>voiceRecordings\<close> the earlier recordings (a legacy single recording
  migrated first) followed by the new one: a fresh entry holding exactly the one recording
  when the id had no recordings.  The entries of all other ids are as before.  \<open>totalViews\<close>
  grows by one exactly when the id had no earlier completion.  The route answers 200 for a
  recording of positive duration.
\<close>

theorem markVideoWatched_any_kid_id:
  assumes "getVideo videoId userId db = Some video"
      and "totalViews video < MAX_VIDEO_VIEWS"
      and "kidId \<noteq> ''__proto__'' \<or> progress video kidId \<noteq> None"
      and "storableText kidId"
      and "storableText (recordedAt recording)"
      and "case audioData recording of None \<Rightarrow> True | Some a \<Rightarrow> storableText a"
  shows "\<exists>video' db'.
           markVideoWatched now videoId kidId recording userId db = (Inr video', db')
         \<and> getVideo videoId userId db' = Some video'
         \<and> progress video' kidId =
             Some \<lparr> watched = True,
                    watchedAt = Some (str_or (watchedAtOf video kidId) now),
                    voiceRecording = None,
                    voiceRecordings =
                      Some ((case legacyRecordingOf video kidId of
                               None \<Rightarrow> recordingsOf video kidId
                             | Some l \<Rightarrow> if recordingsOf video kidId = [] then [l]
                                         else recordingsOf video kidId) @ [recording]),
                    parentReviewed = Some False,
                    lastPosition = None, videoDuration = None, dailyWatchTime = None \<rparr>
         \<and> (\<forall>k. k \<noteq> kidId \<longrightarrow> progress video' k = progress video k)
         \<and> totalViews video' =
             (if completedBy video kidId then totalViews video else totalViews video + 1)
         \<and> (recordingsOf video kidId = [] \<and> legacyRecordingOf video kidId = None \<longrightarrow>
              recordingsOf video' kidId = [recording])
         \<and> (watchedAtOf video kidId = None \<longrightarrow> watchedAtOf video' kidId = Some now)
         \<and> (0 < duration recording \<longrightarrow>
              post_video_watched now userId videoId kidId (Some recording) db = (Json 200 video', db'))"
proof -
  have w: "js_set (progress video) kidId e = (progress video)(kidId \<mapsto> e)" for e
    using assms(3) by (auto simp: js_set_def)
  from assms(1,2) show ?thesis
    by (auto simp: markVideoWatched_def post_video_watched_def Let_def getVideo_after_update w
          int_or_def str_or_def recordingsOf_def watchedAtOf_def legacyRecordingOf_def
          completedBy_def MAX_VIDEO_VIEWS_def split: option.splits)
qed

theorem markVideoWatched_any_kid_id_witness:
  "getVideo ''v1'' ''u1'' (db_example [''k1'' \<mapsto> progress_watched] 1)
      = Some (Video.truncate (video_example [''k1'' \<mapsto> progress_watched] 1))
   \<and> totalViews (Video.truncate (video_example [''k1'' \<mapsto> progress_watched] 1)) < MAX_VIDEO_VIEWS
   \<and> progress (Video.truncate (video_example [''k1'' \<mapsto> progress_watched] 1)) ''no-such-kid'' = None
   \<and> assigned (Video.truncate (video_example [''k1'' \<mapsto> progress_watched] 1)) ''no-such-kid'' = None
   \<and> storableText ''no-such-kid'' \<and> storableText (recordedAt rec1)
   \<and> (\<exists>video' db'.
         post_video_watched ''2026-02-01T10:00:01.000Z'' ''u1'' ''v1'' ''no-such-kid'' (Some rec1)
            (db_example [''k1'' \<mapsto> progress_watched] 1) = (Json 200 video', db')
       \<and> progress video' ''no-such-kid''
           = Some (unwatched \<lparr> watched := True, watchedAt := Some ''2026-02-01T10:00:01.000Z'',
                               voiceRecordings := Some [rec1], parentReviewed := Some False \<rparr>)
       \<and> progress video' ''k1'' = Some progress_watched
       \<and> totalViews video' = 2
       \<and> getVideo ''v1'' ''u1'' db' = Some video')"
proof -
  let ?V = "Video.truncate (video_example [''k1'' \<mapsto> progress_watched] 1)"
  have h1: "getVideo ''v1'' ''u1'' (db_example [''k1'' \<mapsto> progress_watched] 1) = Some ?V"
    by (rule getVideo_db_example)
  have h2: "totalViews ?V < MAX_VIDEO_VIEWS"
    by (simp add: Video.truncate_def video_example_def MAX_VIDEO_VIEWS_def)
  have h3: "''no-such-kid'' \<noteq> ''__proto__'' \<or> progress ?V ''no-such-kid'' \<noteq> None"
    by simp
  have h4: "storableText ''no-such-kid''" and h5: "storableText (recordedAt rec1)"
    and h6: "case audioData rec1 of None \<Rightarrow> True | Some a \<Rightarrow> storableText a"
    by (simp_all add: storableText_def rec1_def)
  have o: "progress ?V ''no-such-kid'' = None" "assigned ?V ''no-such-kid'' = None"
    "progress ?V ''k1'' = Some progress_watched" "totalViews ?V = 1" "0 < duration rec1"
    "watchedAtOf ?V ''no-such-kid'' = None" "recordingsOf ?V ''no-such-kid'' = []"
    "legacyRecordingOf ?V ''no-such-kid'' = None" "\<not> completedBy ?V ''no-such-kid''"
    by (simp_all add: Video.truncate_def video_example_def rec1_def watchedAtOf_def
          recordingsOf_def legacyRecordingOf_def completedBy_def)
  from markVideoWatched_any_kid_id [OF h1 h2 h3 h4 h5 h6, of "''2026-02-01T10:00:01.000Z''"]
  obtain video' db' where
    r: "post_video_watched ''2026-02-01T10:00:01.000Z'' ''u1'' ''v1'' ''no-such-kid'' (Some rec1)
          (db_example [''k1'' \<mapsto> progress_watched] 1) = (Json 200 video', db')"
    and g: "getVideo ''v1'' ''u1'' db' = Some video'"
    and e: "progress video' ''no-such-kid''
              = Some (unwatched \<lparr> watched := True, watchedAt := Some ''2026-02-01T10:00:01.000Z'',
                                  voiceRecordings := Some [rec1], parentReviewed := Some False \<rparr>)"
    and k: "progress video' ''k1'' = progress ?V ''k1''"
    and t: "totalViews video' = 2"
    using o by (auto simp: str_or_def unwatched_def)
  from h1 h2 o(1,2) h4 h5 r e k o(3) t g show ?thesis
    by auto
qed

text \<open>
  The claim as first stated fails in two ways.  For kid \<open>k1\<close>, who has completed the video, the
  call succeeds with \<open>totalViews\<close> still 1 and two recordings in the entry: it is a re-watch.
  For the id \<open>__proto__\<close> the call succeeds and \<open>totalViews\<close> becomes 2, but no entry is stored
  under the id.
\<close>

theorem markVideoWatched_any_kid_id_counterexample:
  "fst (markVideoWatched ''2026-02-01T10:00:01.000Z'' ''v1'' ''k1'' rec1 ''u1''
          (db_example [''k1'' \<mapsto> progress_watched] 1))
     = Inr (Video.truncate (video_example
              [''k1'' \<mapsto> progress_watched \<lparr> voiceRecordings := Some [rec0, rec1],
                                             parentReviewed := Some False \<rparr>] 1))
   \<and> fst (markVideoWatched ''2026-02-01T10:00:01.000Z'' ''v1'' ''__proto__'' rec1 ''u1''
          (db_example [''k1'' \<mapsto> progress_watched] 1))
     = Inr (Video.truncate (video_example [''k1'' \<mapsto> progress_watched] 2))
   \<and> progress (Video.truncate (video_example [''k1'' \<mapsto> progress_watched] 2)) ''__proto__'' = None
   \<and> snd (markVideoWatched ''2026-02-01T10:00:01.000Z'' ''v1'' ''__proto__'' rec1 ''u1''
          (db_example [''k1'' \<mapsto> progress_watched] 1))
     = db_example [''k1'' \<mapsto> progress_watched] 2"
proof -
  have a: "fst (markVideoWatched ''2026-02-01T10:00:01.000Z'' ''v1'' ''k1'' rec1 ''u1''
                  (db_example [''k1'' \<mapsto> progress_watched] 1))
             = Inr (Video.truncate (video_example
                      [''k1'' \<mapsto> progress_watched \<lparr> voiceRecordings := Some [rec0, rec1],
                                                     parentReviewed := Some False \<rparr>] 1))"
    by (simp add: markVideoWatched_def getVideo_db_example Let_def video_example_def
          Video.truncate_def progress_watched_def unwatched_def str_or_def js_set_def)
  have b: "fst (markVideoWatched ''2026-02-01T10:00:01.000Z'' ''v1'' ''__proto__'' rec1 ''u1''
                  (db_example [''k1'' \<mapsto> progress_watched] 1))
             = Inr (Video.truncate (video_example [''k1'' \<mapsto> progress_watched] 2))"
    by (simp add: markVideoWatched_def getVideo_db_example Let_def video_example_def
          Video.truncate_def progress_watched_def unwatched_def int_or_def js_set_def
          MAX_VIDEO_VIEWS_def)
  have c: "progress (Video.truncate (video_example [''k1'' \<mapsto> progress_watched] 2)) ''__proto__'' = None"
    by (simp add: video_example_def Video.truncate_def)
  have d: "snd (markVideoWatched ''2026-02-01T10:00:01.000Z'' ''v1'' ''__proto__'' rec1 ''u1''
                  (db_example [''k1'' \<mapsto> progress_watched] 1))
             = db_example [''k1'' \<mapsto> progress_watched] 2"
    by (simp add: markVideoWatched_def getVideo_def Let_def video_example_def db_example_def
          Video.truncate_def progress_watched_def unwatched_def int_or_def js_set_def
          MAX_VIDEO_VIEWS_def)
  from a b c d show ?thesis by (intro conjI)
qed

section \<open>Playback position and daily watch time\<close>






section \<open>Renaming a folder\<close>

text \<open>
  Claim C6 describes a rename that never produces a folder named like a shadow folder.  The
  route checks only that the name is non-empty after trimming.  On the example store,
  renaming folder \<open>f1\<close> to \<open>__global_folder_7\<close> is answered with 200 and the folder then
  carries the reserved name.  The storage layer takes it for a shadow folder from then on: the
  playlist listing, which showed \<open>f1\<close> before, hides it, and the cleanup of global data deletes
  the folder together with video \<open>v1\<close> inside it.
\<close>

theorem patch_folder_stores_reserved_name:
  "getFolder ''f1'' ''u1'' (db_example Map.empty 0) = Some \<lparr> folder_id = ''f1'', folder_name = ''Cartoons'' \<rparr>
   \<and> startsWith ''__global_folder_7'' ''__global_''
   \<and> fst (patch_folder ''u1'' ''f1'' (Some ''__global_folder_7'') (db_example Map.empty 0))
       = Json 200 \<lparr> folder_id = ''f1'', folder_name = ''__global_folder_7'' \<rparr>
   \<and> getFolder ''f1'' ''u1'' (snd (patch_folder ''u1'' ''f1'' (Some ''__global_folder_7'') (db_example Map.empty 0)))
       = Some \<lparr> folder_id = ''f1'', folder_name = ''__global_folder_7'' \<rparr>
   \<and> getGlobalFolders ''u1'' (db_example Map.empty 0)
       = [\<lparr> folder_id = ''f1'', folder_name = ''Cartoons'' \<rparr>]
   \<and> getGlobalFolders ''u1''
        (snd (patch_folder ''u1'' ''f1'' (Some ''__global_folder_7'') (db_example Map.empty 0))) = []
   \<and> map video_id (videosTable
        (snd (patch_folder ''u1'' ''f1'' (Some ''__global_folder_7'') (db_example Map.empty 0)))) = [''v1'']
   \<and> foldersTable (cleanupGlobalData ''u1''
        (snd (patch_folder ''u1'' ''f1'' (Some ''__global_folder_7'') (db_example Map.empty 0)))) = []
   \<and> videosTable (cleanupGlobalData ''u1''
        (snd (patch_folder ''u1'' ''f1'' (Some ''__global_folder_7'') (db_example Map.empty 0)))) = []"
  by (simp add: patch_folder_def updateFolder_def getFolder_def getGlobalFolders_def
        cleanupGlobalData_def db_example_def video_example_def Folder.truncate_def trim_def
        whitespace_def startsWith_def storableText_def Let_def)

section \<open>Deleting kids, videos and folders\<close>

text \<open>
  Claim C2 describes a \<open>deleteKid\<close> that also removes the kid from every video's \<open>assigned\<close>
  and \<open>progress\<close> maps.  The code deletes the kid row only.  On the example store the route
  answers 204, the kid row is gone, no video is deleted, and video \<open>v1\<close> still holds the
  entries of kid \<open>k1\<close> in both maps.
\<close>

theorem delete_kid_leaves_video_entries:
  "delete_kid ''u1'' ''k1'' (db_example [''k1'' \<mapsto> unwatched] 0)
     = (Empty 204, (db_example [''k1'' \<mapsto> unwatched] 0)\<lparr> kidsTable := [] \<rparr>)
   \<and> map (\<lambda>r. (assigned r ''k1'', progress r ''k1''))
         (videosTable (snd (delete_kid ''u1'' ''k1'' (db_example [''k1'' \<mapsto> unwatched] 0))))
     = [(Some True, Some unwatched)]"
  by (simp add: delete_kid_def deleteKid_def db_example_def video_example_def)

text \<open>
  Claim C7 describes delete operations that report not-found for an id outside the caller's
  owner scope.  The storage functions return \<open>true\<close> whatever they deleted, so the 404 branches
  of the kid and video routes are never taken and the folder route has none: every delete
  route answers 204.  On the example store an unknown video id and another owner's video, kid
  and folder ids all give 204 and leave the store as it was.
\<close>

theorem delete_routes_never_report_not_found:
  "fst (deleteKid ident userId db) \<and> fst (deleteVideo ident userId db) \<and> fst (deleteFolder ident userId db)
   \<and> fst (delete_kid userId ident db) = Empty 204
   \<and> fst (delete_video userId ident db) = Empty 204
   \<and> fst (delete_folder userId ident db) = Empty 204
   \<and> delete_video ''u1'' ''no-such-video'' (db_example Map.empty 0) = (Empty 204, db_example Map.empty 0)
   \<and> delete_video ''u2'' ''v1'' (db_example Map.empty 0) = (Empty 204, db_example Map.empty 0)
   \<and> delete_kid ''u2'' ''k1'' (db_example Map.empty 0) = (Empty 204, db_example Map.empty 0)
   \<and> delete_folder ''u2'' ''f1'' (db_example Map.empty 0) = (Empty 204, db_example Map.empty 0)"
  by (simp add: delete_kid_def delete_video_def delete_folder_def deleteKid_def deleteVideo_def
        deleteFolder_def db_example_def video_example_def)

section \<open>The URL classifier\<close>

lemma at_index_mem: "at_index xs i = Some x \<Longrightarrow> x \<in> set xs"
  by (auto simp: at_index_def split: if_splits)

lemma pathParts_nonempty: "p \<in> set (pathParts u) \<Longrightarrow> p \<noteq> []"
  by (auto simp: pathParts_def)

lemma youTubeIdOf_nonempty: "youTubeIdOf u = Some i \<Longrightarrow> i \<noteq> []"
  by (auto simp: youTubeIdOf_def Let_def split: if_splits dest!: at_index_mem pathParts_nonempty)

lemma tikTokIdOf_nonempty: "tikTokIdOf u = Some i \<Longrightarrow> i \<noteq> []"
  by (auto simp: tikTokIdOf_def Let_def all_digits_def split: if_splits option.splits)

lemma tikTokIdOf_host: "tikTokIdOf u = Some i \<Longrightarrow> hostOf u = ''tiktok.com'' \<or> hostOf u = ''m.tiktok.com''"
  by (auto simp: tikTokIdOf_def Let_def split: if_splits)

lemma youTubeIdOf_tiktok_host:
  "hostOf u = ''tiktok.com'' \<or> hostOf u = ''m.tiktok.com'' \<or> hostOf u = ''vm.tiktok.com''
     \<Longrightarrow> youTubeIdOf u = None"
  by (auto simp: youTubeIdOf_def Let_def)

lemma tikTokIdOf_vm: "hostOf u = ''vm.tiktok.com'' \<Longrightarrow> tikTokIdOf u = None"
  by (simp add: tikTokIdOf_def Let_def)

lemma getYouTubeId_nonempty: "getYouTubeId newURL url = Some i \<Longrightarrow> i \<noteq> []"
  by (auto simp: getYouTubeId_def split: option.splits dest: youTubeIdOf_nonempty)

lemma getTikTokId_nonempty: "getTikTokId newURL url = Some i \<Longrightarrow> i \<noteq> []"
  by (auto simp: getTikTokId_def split: option.splits dest: tikTokIdOf_nonempty)

lemma getVideoInfo_youtube:
  "getYouTubeId newURL url = Some i \<Longrightarrow> getVideoInfo newURL url = Some (youtube, i)"
  using getYouTubeId_nonempty [of newURL url i] by (simp add: getVideoInfo_def Let_def)

lemma getVideoInfo_no_youtube:
  "getYouTubeId newURL url = None \<Longrightarrow>
     getVideoInfo newURL url = map_option (Pair tiktok) (getTikTokId newURL url)"
  using getTikTokId_nonempty [of newURL url]
  by (cases "getTikTokId newURL url") (auto simp: getVideoInfo_def Let_def)

lemma not_both:
  "\<not> (getYouTubeId newURL url \<noteq> None \<and> getTikTokId newURL url \<noteq> None)"
  by (auto simp: getYouTubeId_def getTikTokId_def split: option.splits
        dest!: tikTokIdOf_host youTubeIdOf_tiktok_host [OF disjI1] youTubeIdOf_tiktok_host [OF disjI2, OF disjI1])

lemma tikTokIdOf_Some:
  "hostOf u = ''tiktok.com'' \<or> hostOf u = ''m.tiktok.com'' \<Longrightarrow>
   indexOf (pathParts u) ''video'' = Some k \<Longrightarrow> at_index (pathParts u) (k + 1) = Some seg \<Longrightarrow>
   all_digits seg \<Longrightarrow> tikTokIdOf u = Some seg"
  by (auto simp: tikTokIdOf_def Let_def)

lemma tikTokIdOf_Some_iff:
  "hostOf u = ''tiktok.com'' \<Longrightarrow>
     (tikTokIdOf u \<noteq> None) =
     (\<exists>k seg. indexOf (pathParts u) ''video'' = Some k \<and> at_index (pathParts u) (k + 1) = Some seg
              \<and> all_digits seg)"
  by (auto simp: tikTokIdOf_def Let_def split: option.splits)

text \<open>
  Claim C9, as the code has it.  The classifier is a function from strings to an optional
  platform and id; a string the \<open>URL\<close> constructor rejects gives none.  A YouTube match wins,
  the TikTok rules are consulted only without one, and no string matches both.  The short-link
  host \<open>vm.tiktok.com\<close> always gives none.  A short link under \<open>tiktok.com/t/\<close> gives none
  unless its path has a \<open>video\<close> segment whose next segment is all digits (counting the first
  \<open>video\<close> segment); then it is classified as a TikTok video whose id is that all-digit
  segment, as every URL of the hosts \<open>tiktok.com\<close> and \<open>m.tiktok.com\<close> with such a path is.  No
  case touches the network: the only parameter is the parser.
\<close>

theorem getVideoInfo_classifier:
  "(newURL (trim url) = None \<longrightarrow> getVideoInfo newURL url = None)
   \<and> (\<forall>i. getYouTubeId newURL url = Some i \<longrightarrow> getVideoInfo newURL url = Some (youtube, i))
   \<and> (getYouTubeId newURL url = None \<longrightarrow>
        getVideoInfo newURL url = map_option (Pair tiktok) (getTikTokId newURL url))
   \<and> \<not> (getYouTubeId newURL url \<noteq> None \<and> getTikTokId newURL url \<noteq> None)
   \<and> (\<forall>u. newURL (trim url) = Some u \<and> hostOf u = ''vm.tiktok.com'' \<longrightarrow>
          getVideoInfo newURL url = None)
   \<and> (isTikTokShortUrl newURL (trim url) \<longrightarrow>
        (getVideoInfo newURL url \<noteq> None) =
        (\<exists>u k seg. newURL (trim url) = Some u \<and> hostOf u = ''tiktok.com''
                  \<and> indexOf (pathParts u) ''video'' = Some k
                  \<and> at_index (pathParts u) (k + 1) = Some seg \<and> all_digits seg))
   \<and> (\<forall>u k seg. newURL (trim url) = Some u
                  \<and> (hostOf u = ''tiktok.com'' \<or> hostOf u = ''m.tiktok.com'')
                  \<and> indexOf (pathParts u) ''video'' = Some k
                  \<and> at_index (pathParts u) (k + 1) = Some seg \<and> all_digits seg \<longrightarrow>
          getVideoInfo newURL url = Some (tiktok, seg))"
proof (intro conjI allI impI)
  assume "newURL (trim url) = None"
  then show "getVideoInfo newURL url = None"
    by (simp add: getVideoInfo_def getYouTubeId_def getTikTokId_def)
next
  fix i assume "getYouTubeId newURL url = Some i"
  then show "getVideoInfo newURL url = Some (youtube, i)" by (rule getVideoInfo_youtube)
next
  assume "getYouTubeId newURL url = None"
  then show "getVideoInfo newURL url = map_option (Pair tiktok) (getTikTokId newURL url)"
    by (rule getVideoInfo_no_youtube)
next
  show "\<not> (getYouTubeId newURL url \<noteq> None \<and> getTikTokId newURL url \<noteq> None)"
    by (rule not_both)
next
  fix u assume "newURL (trim url) = Some u \<and> hostOf u = ''vm.tiktok.com''"
  then have "getYouTubeId newURL url = None" and "getTikTokId newURL url = None"
    by (simp_all add: getYouTubeId_def getTikTokId_def youTubeIdOf_tiktok_host tikTokIdOf_vm)
  then show "getVideoInfo newURL url = None"
    by (simp add: getVideoInfo_def)
next
  assume s: "isTikTokShortUrl newURL (trim url)"
  then obtain u where u: "newURL (trim url) = Some u"
    and h: "hostOf u = ''vm.tiktok.com'' \<or> hostOf u = ''tiktok.com''"
    by (auto simp: isTikTokShortUrl_def split: option.splits)
  have y: "getYouTubeId newURL url = None"
    using u h by (auto simp: getYouTubeId_def youTubeIdOf_tiktok_host)
  have t: "getTikTokId newURL url = tikTokIdOf u"
    using u by (simp add: getTikTokId_def)
  from h show "(getVideoInfo newURL url \<noteq> None) =
        (\<exists>u k seg. newURL (trim url) = Some u \<and> hostOf u = ''tiktok.com''
                  \<and> indexOf (pathParts u) ''video'' = Some k
                  \<and> at_index (pathParts u) (k + 1) = Some seg \<and> all_digits seg)"
  proof
    assume v: "hostOf u = ''vm.tiktok.com''"
    then show ?thesis
      using u y t by (simp add: getVideoInfo_no_youtube tikTokIdOf_vm)
  next
    assume k: "hostOf u = ''tiktok.com''"
    from tikTokIdOf_Some_iff [OF k] show ?thesis
      using u y t k by (simp add: getVideoInfo_no_youtube)
  qed
next
  fix u k seg
  assume a: "newURL (trim url) = Some u
             \<and> (hostOf u = ''tiktok.com'' \<or> hostOf u = ''m.tiktok.com'')
             \<and> indexOf (pathParts u) ''video'' = Some k
             \<and> at_index (pathParts u) (k + 1) = Some seg \<and> all_digits seg"
  then have t: "getTikTokId newURL url = Some seg"
    by (simp add: getTikTokId_def tikTokIdOf_Some)
  from a have "youTubeIdOf u = None"
    by (auto intro: youTubeIdOf_tiktok_host)
  with a have "getYouTubeId newURL url = None"
    by (simp add: getYouTubeId_def)
  with t show "getVideoInfo newURL url = Some (tiktok, seg)"
    by (simp add: getVideoInfo_no_youtube)
qed

theorem getVideoInfo_classifier_witness:
  "newURL_example (trim ''not a url'') = None
   \<and> getVideoInfo newURL_example ''not a url'' = None
   \<and> getYouTubeId newURL_example '' https://www.youtube.com/watch?v=xyz '' = Some ''xyz''
   \<and> getVideoInfo newURL_example '' https://www.youtube.com/watch?v=xyz '' = Some (youtube, ''xyz'')
   \<and> getYouTubeId newURL_example ''https://www.tiktok.com/@user/video/456'' = None
   \<and> getVideoInfo newURL_example ''https://www.tiktok.com/@user/video/456'' = Some (tiktok, ''456'')
   \<and> isTikTokShortUrl newURL_example (trim ''https://vm.tiktok.com/ZMabc/'')
   \<and> getVideoInfo newURL_example ''https://vm.tiktok.com/ZMabc/'' = None
   \<and> isTikTokShortUrl newURL_example (trim ''https://www.tiktok.com/t/ZTabc/'')
   \<and> getVideoInfo newURL_example ''https://www.tiktok.com/t/ZTabc/'' = None
   \<and> indexOf (pathParts \<lparr> hostname = ''www.tiktok.com'', pathname = ''/t/video/123/456'',
                             searchParams = [] \<rparr>) ''video'' = Some 1
   \<and> at_index (pathParts \<lparr> hostname = ''www.tiktok.com'', pathname = ''/t/video/123/456'',
                              searchParams = [] \<rparr>) 2 = Some ''123''
   \<and> getVideoInfo newURL_example ''https://www.tiktok.com/t/video/123/456'' = Some (tiktok, ''123'')"
proof -
  have tr: "trim ''not a url'' = ''not a url''"
    "trim '' https://www.youtube.com/watch?v=xyz '' = ''https://www.youtube.com/watch?v=xyz''"
    "trim ''https://www.tiktok.com/@user/video/456'' = ''https://www.tiktok.com/@user/video/456''"
    "trim ''https://vm.tiktok.com/ZMabc/'' = ''https://vm.tiktok.com/ZMabc/''"
    "trim ''https://www.tiktok.com/t/ZTabc/'' = ''https://www.tiktok.com/t/ZTabc/''"
    by (simp_all add: trim_def whitespace_def)
  have a1: "newURL_example (trim ''not a url'') = None"
    by (simp add: tr newURL_example_def)
  have a2: "getYouTubeId newURL_example '' https://www.youtube.com/watch?v=xyz '' = Some ''xyz''"
    by (simp add: getYouTubeId_def tr newURL_example_def youTubeIdOf_def hostOf_def toLowerCase_def
          pathParts_def at_index_def Let_def)
  have a3: "getYouTubeId newURL_example ''https://www.tiktok.com/@user/video/456'' = None"
    by (simp add: getYouTubeId_def tr newURL_example_def youTubeIdOf_def hostOf_def toLowerCase_def
          Let_def)
  have a3': "getTikTokId newURL_example ''https://www.tiktok.com/@user/video/456'' = Some ''456''"
    by (simp add: getTikTokId_def tr newURL_example_def tikTokIdOf_def hostOf_def toLowerCase_def
          pathParts_def at_index_def all_digits_def Let_def)
  have a4: "isTikTokShortUrl newURL_example (trim ''https://vm.tiktok.com/ZMabc/'')"
    by (simp add: isTikTokShortUrl_def tr newURL_example_def hostOf_def toLowerCase_def)
  have a4': "newURL_example (trim ''https://vm.tiktok.com/ZMabc/'')
               = Some \<lparr> hostname = ''vm.tiktok.com'', pathname = ''/ZMabc/'', searchParams = [] \<rparr>
             \<and> hostOf \<lparr> hostname = ''vm.tiktok.com'', pathname = ''/ZMabc/'', searchParams = [] \<rparr>
               = ''vm.tiktok.com''"
    by (simp add: tr newURL_example_def hostOf_def toLowerCase_def)
  have a5: "isTikTokShortUrl newURL_example (trim ''https://www.tiktok.com/t/ZTabc/'')"
    by (simp add: isTikTokShortUrl_def tr newURL_example_def hostOf_def toLowerCase_def startsWith_def)
  have a5': "\<not> (\<exists>u k seg. newURL_example (trim ''https://www.tiktok.com/t/ZTabc/'') = Some u
                   \<and> hostOf u = ''tiktok.com''
                   \<and> indexOf (pathParts u) ''video'' = Some k
                   \<and> at_index (pathParts u) (k + 1) = Some seg \<and> all_digits seg)"
    by (simp add: tr newURL_example_def pathParts_def)
  note c1 = getVideoInfo_classifier [of newURL_example "''not a url''"]
  note c2 = getVideoInfo_classifier [of newURL_example "'' https://www.youtube.com/watch?v=xyz ''"]
  note c3 = getVideoInfo_classifier [of newURL_example "''https://www.tiktok.com/@user/video/456''"]
  note c4 = getVideoInfo_classifier [of newURL_example "''https://vm.tiktok.com/ZMabc/''"]
  note c5 = getVideoInfo_classifier [of newURL_example "''https://www.tiktok.com/t/ZTabc/''"]
  have b1: "getVideoInfo newURL_example ''not a url'' = None"
    using c1 a1 by blast
  have b2: "getVideoInfo newURL_example '' https://www.youtube.com/watch?v=xyz '' = Some (youtube, ''xyz'')"
    using c2 a2 by blast
  have b3: "getVideoInfo newURL_example ''https://www.tiktok.com/@user/video/456'' = Some (tiktok, ''456'')"
    using c3 a3 a3' by simp
  have b4: "getVideoInfo newURL_example ''https://vm.tiktok.com/ZMabc/'' = None"
    using c4 a4' by blast
  have b5: "getVideoInfo newURL_example ''https://www.tiktok.com/t/ZTabc/'' = None"
    using c5 a5 a5' by blast
  let ?u = "\<lparr> hostname = ''www.tiktok.com'', pathname = ''/t/video/123/456'', searchParams = [] \<rparr>"
  have a6: "newURL_example (trim ''https://www.tiktok.com/t/video/123/456'') = Some ?u"
    by (simp add: trim_def whitespace_def newURL_example_def)
  have a6': "hostOf ?u = ''tiktok.com''"
    by (simp add: hostOf_def toLowerCase_def)
  have a7: "indexOf (pathParts ?u) ''video'' = Some 1"
    by (simp add: pathParts_def)
  have a8: "at_index (pathParts ?u) (1 + 1) = Some ''123''" and a8': "at_index (pathParts ?u) 2 = Some ''123''"
    by (simp_all add: pathParts_def at_index_def)
  have a9: "all_digits ''123''"
    by (simp add: all_digits_def)
  note c6 = getVideoInfo_classifier [of newURL_example "''https://www.tiktok.com/t/video/123/456''"]
  have b6: "getVideoInfo newURL_example ''https://www.tiktok.com/t/video/123/456'' = Some (tiktok, ''123'')"
    using c6 a6 a6' a7 a8 a9 by blast
  from a1 b1 a2 b2 a3 b3 a4 b4 a5 b5 a7 a8' b6 show ?thesis
    by (intro conjI)
qed

text \<open>The claim as first stated fails: \<open>https://www.tiktok.com/t/video/123\<close> is a short link
  for the routes' own test and is classified as TikTok video \<open>123\<close>.\<close>

theorem getVideoInfo_short_link_counterexample:
  "isTikTokShortUrl newURL_example ''https://www.tiktok.com/t/video/123''
   \<and> getVideoInfo newURL_example ''https://www.tiktok.com/t/video/123'' = Some (tiktok, ''123'')"
  by (simp add: isTikTokShortUrl_def getVideoInfo_def getYouTubeId_def getTikTokId_def
        newURL_example_def trim_def whitespace_def youTubeIdOf_def tikTokIdOf_def hostOf_def
        toLowerCase_def pathParts_def at_index_def all_digits_def startsWith_def Let_def)

section \<open>Creating a video\<close>

lemma createVideo_conflict_iff:
  assumes "getVideoInfo newURL url = Some (pf, videoId)"
  shows "(fst (createVideo newURL newId url kidIds allKids userId folderId priority db) = Inl AlreadyInLibrary)
          = (\<exists>r\<in>set (videosTable db). video_userId r = userId \<and> ytId r = videoId)"
proof (cases "filter (\<lambda>r. ytId r = videoId \<and> video_userId r = userId) (videosTable db) = []")
  case True
  then have "\<not> (\<exists>r\<in>set (videosTable db). video_userId r = userId \<and> ytId r = videoId)"
    by (auto simp: filter_empty_conv)
  moreover have "fst (createVideo newURL newId url kidIds allKids userId folderId priority db)
                   \<noteq> Inl AlreadyInLibrary"
    using assms True
    by (auto simp: createVideo_def Let_def insertVideo_def split: sum.splits)
  ultimately show ?thesis by simp
next
  case False
  then have "\<exists>r\<in>set (videosTable db). video_userId r = userId \<and> ytId r = videoId"
    by (auto simp: filter_empty_conv)
  moreover have "fst (createVideo newURL newId url kidIds allKids userId folderId priority db)
                   = Inl AlreadyInLibrary"
    using assms False by (simp add: createVideo_def Let_def)
  ultimately show ?thesis by simp
qed

lemma createVideo_effect:
  assumes "getVideoInfo newURL url = Some (pf, videoId)"
  shows "snd (createVideo newURL newId url kidIds allKids userId folderId priority db) = db
       \<or> (\<exists>row. snd (createVideo newURL newId url kidIds allKids userId folderId priority db)
                   = db\<lparr> videosTable := videosTable db @ [row] \<rparr>
               \<and> fst (createVideo newURL newId url kidIds allKids userId folderId priority db)
                   = Inr (Video.truncate row)
               \<and> video_userId row = userId \<and> ytId row = videoId \<and> platform row = pf
               \<and> \<not> (\<exists>r\<in>set (videosTable db). video_userId r = userId \<and> ytId r = videoId))"
proof (cases "filter (\<lambda>r. ytId r = videoId \<and> video_userId r = userId) (videosTable db) = []")
  case False
  with assms show ?thesis by (simp add: createVideo_def Let_def)
next
  case True
  then have n: "\<not> (\<exists>r\<in>set (videosTable db). video_userId r = userId \<and> ytId r = videoId)"
    by (auto simp: filter_empty_conv)
  show ?thesis
    using assms True n
    by (auto simp: createVideo_def Let_def insertVideo_def Video.extend_def VideoRow.fields_def
          Video.truncate_def)
qed

lemma createVideo_conflict_unchanged:
  assumes "getVideoInfo newURL url = Some (pf, videoId)"
      and "fst (createVideo newURL newId url kidIds allKids userId folderId priority db)
             = Inl AlreadyInLibrary"
  shows "snd (createVideo newURL newId url kidIds allKids userId folderId priority db) = db"
  using createVideo_effect [OF assms(1), of newId kidIds allKids userId folderId priority db] assms(2)
  by auto

lemma createVideo_uniqueYtIds:
  assumes "getVideoInfo newURL url = Some (pf, videoId)"
      and "uniqueYtIds owner db"
  shows "uniqueYtIds owner (snd (createVideo newURL newId url kidIds allKids userId folderId priority db))"
proof -
  from createVideo_effect [OF assms(1), of newId kidIds allKids userId folderId priority db]
  show ?thesis
  proof
    assume "snd (createVideo newURL newId url kidIds allKids userId folderId priority db) = db"
    with assms(2) show ?thesis by simp
  next
    assume "\<exists>row. snd (createVideo newURL newId url kidIds allKids userId folderId priority db)
                   = db\<lparr> videosTable := videosTable db @ [row] \<rparr>
               \<and> fst (createVideo newURL newId url kidIds allKids userId folderId priority db)
                   = Inr (Video.truncate row)
               \<and> video_userId row = userId \<and> ytId row = videoId \<and> platform row = pf
               \<and> \<not> (\<exists>r\<in>set (videosTable db). video_userId r = userId \<and> ytId r = videoId)"
    then obtain row where
      e: "snd (createVideo newURL newId url kidIds allKids userId folderId priority db)
            = db\<lparr> videosTable := videosTable db @ [row] \<rparr>"
      and r: "video_userId row = userId" "ytId row = videoId"
      and n: "\<not> (\<exists>r\<in>set (videosTable db). video_userId r = userId \<and> ytId r = videoId)"
      by blast
    show ?thesis
      unfolding e using assms(2) r n by (auto simp: uniqueYtIds_def)
  qed
qed

lemma createVideo_unique:
  assumes "getVideoInfo newURL url = Some (pf, videoId)"
      and "uniqueVideos owner db"
  shows "uniqueVideos owner (snd (createVideo newURL newId url kidIds allKids userId folderId priority db))"
proof -
  from createVideo_effect [OF assms(1), of newId kidIds allKids userId folderId priority db]
  show ?thesis
  proof
    assume "snd (createVideo newURL newId url kidIds allKids userId folderId priority db) = db"
    with assms(2) show ?thesis by simp
  next
    assume "\<exists>row. snd (createVideo newURL newId url kidIds allKids userId folderId priority db)
                   = db\<lparr> videosTable := videosTable db @ [row] \<rparr>
               \<and> fst (createVideo newURL newId url kidIds allKids userId folderId priority db)
                   = Inr (Video.truncate row)
               \<and> video_userId row = userId \<and> ytId row = videoId \<and> platform row = pf
               \<and> \<not> (\<exists>r\<in>set (videosTable db). video_userId r = userId \<and> ytId r = videoId)"
    then obtain row where
      e: "snd (createVideo newURL newId url kidIds allKids userId folderId priority db)
            = db\<lparr> videosTable := videosTable db @ [row] \<rparr>"
      and r: "video_userId row = userId" "ytId row = videoId"
      and n: "\<not> (\<exists>r\<in>set (videosTable db). video_userId r = userId \<and> ytId r = videoId)"
      by blast
    show ?thesis
      unfolding e using assms(2) r n by (auto simp: uniqueVideos_def)
  qed
qed

text \<open>
  Claim C5, as the code has it.  For a URL that classifies to a platform and a platform video
  id, \<open>createVideo\<close> fails with the already-in-library conflict exactly when the owner already
  has a video with that platform video id, on whatever platform, and it then leaves the store
  as it was.  A call either leaves the store as it was or appends one row: the returned video
  with the owner, the platform and the platform video id of the URL, an id no video of the
  owner had.  Hence \<open>createVideo\<close> never gives an owner two videos with the same platform video
  id, and it keeps the invariant that within one owner no two videos share platform and
  platform video id.
\<close>

theorem createVideo_dedup:
  assumes "getVideoInfo newURL url = Some (pf, videoId)"
      and "R = createVideo newURL newId url kidIds allKids userId folderId priority db"
  shows "((fst R = Inl AlreadyInLibrary)
            = (\<exists>r\<in>set (videosTable db). video_userId r = userId \<and> ytId r = videoId))
       \<and> (fst R = Inl AlreadyInLibrary \<longrightarrow> snd R = db)
       \<and> (snd R = db
          \<or> (\<exists>row. snd R = db\<lparr> videosTable := videosTable db @ [row] \<rparr>
                  \<and> fst R = Inr (Video.truncate row)
                  \<and> video_userId row = userId \<and> ytId row = videoId \<and> platform row = pf
                  \<and> \<not> (\<exists>r\<in>set (videosTable db). video_userId r = userId \<and> ytId r = videoId)))
       \<and> (\<forall>owner. uniqueYtIds owner db \<longrightarrow> uniqueYtIds owner (snd R))
       \<and> (\<forall>owner. uniqueVideos owner db \<longrightarrow> uniqueVideos owner (snd R))"
  unfolding assms(2)
proof (intro conjI allI impI)
  show "(fst (createVideo newURL newId url kidIds allKids userId folderId priority db) = Inl AlreadyInLibrary)
          = (\<exists>r\<in>set (videosTable db). video_userId r = userId \<and> ytId r = videoId)"
    by (rule createVideo_conflict_iff [OF assms(1)])
next
  assume "fst (createVideo newURL newId url kidIds allKids userId folderId priority db)
            = Inl AlreadyInLibrary"
  with assms(1)
  show "snd (createVideo newURL newId url kidIds allKids userId folderId priority db) = db"
    by (rule createVideo_conflict_unchanged)
next
  show "snd (createVideo newURL newId url kidIds allKids userId folderId priority db) = db
        \<or> (\<exists>row. snd (createVideo newURL newId url kidIds allKids userId folderId priority db)
                    = db\<lparr> videosTable := videosTable db @ [row] \<rparr>
                \<and> fst (createVideo newURL newId url kidIds allKids userId folderId priority db)
                    = Inr (Video.truncate row)
                \<and> video_userId row = userId \<and> ytId row = videoId \<and> platform row = pf
                \<and> \<not> (\<exists>r\<in>set (videosTable db). video_userId r = userId \<and> ytId r = videoId))"
    by (rule createVideo_effect [OF assms(1)])
next
  fix owner assume "uniqueYtIds owner db"
  with assms(1)
  show "uniqueYtIds owner (snd (createVideo newURL newId url kidIds allKids userId folderId priority db))"
    by (rule createVideo_uniqueYtIds)
next
  fix owner assume "uniqueVideos owner db"
  with assms(1)
  show "uniqueVideos owner (snd (createVideo newURL newId url kidIds allKids userId folderId priority db))"
    by (rule createVideo_unique)
qed

theorem createVideo_dedup_witness:
  "getVideoInfo newURL_example ''https://youtu.be/abc123'' = Some (youtube, ''abc123'')
   \<and> createVideo newURL_example ''vid_2'' ''https://youtu.be/abc123'' None [] ''u1'' None None
        (db_example Map.empty 0) = (Inl AlreadyInLibrary, db_example Map.empty 0)
   \<and> (\<exists>r\<in>set (videosTable (db_example Map.empty 0)). video_userId r = ''u1'' \<and> ytId r = ''abc123'')
   \<and> fst (createVideo newURL_example ''vid_2'' ''https://youtu.be/abc123'' None [] ''u2'' None None
            (db_example Map.empty 0)) \<noteq> Inl AlreadyInLibrary
   \<and> uniqueYtIds ''u2'' (db_example Map.empty 0)
   \<and> uniqueYtIds ''u2'' (snd (createVideo newURL_example ''vid_2'' ''https://youtu.be/abc123'' None []
                                  ''u2'' None None (db_example Map.empty 0)))
   \<and> uniqueVideos ''u2'' (db_example Map.empty 0)
   \<and> uniqueVideos ''u2'' (snd (createVideo newURL_example ''vid_2'' ''https://youtu.be/abc123'' None []
                                   ''u2'' None None (db_example Map.empty 0)))
   \<and> map (\<lambda>r. (video_id r, video_userId r, platform r, ytId r))
         (videosTable (snd (createVideo newURL_example ''vid_2'' ''https://youtu.be/abc123'' None []
                              ''u2'' None None (db_example Map.empty 0))))
       = [(''v1'', ''u1'', youtube, ''abc123''), (''vid_2'', ''u2'', youtube, ''abc123'')]"
proof -
  let ?R1 = "createVideo newURL_example ''vid_2'' ''https://youtu.be/abc123'' None [] ''u1'' None None
               (db_example Map.empty 0)"
  let ?R2 = "createVideo newURL_example ''vid_2'' ''https://youtu.be/abc123'' None [] ''u2'' None None
               (db_example Map.empty 0)"
  have h: "getVideoInfo newURL_example ''https://youtu.be/abc123'' = Some (youtube, ''abc123'')"
    by (simp add: getVideoInfo_def getYouTubeId_def newURL_example_def trim_def whitespace_def
          youTubeIdOf_def hostOf_def toLowerCase_def pathParts_def at_index_def Let_def)
  have e1: "\<exists>r\<in>set (videosTable (db_example Map.empty 0)). video_userId r = ''u1'' \<and> ytId r = ''abc123''"
    by (simp add: db_example_def video_example_def)
  have e2: "\<not> (\<exists>r\<in>set (videosTable (db_example Map.empty 0)). video_userId r = ''u2'' \<and> ytId r = ''abc123'')"
    by (simp add: db_example_def video_example_def)
  have u: "uniqueVideos ''u2'' (db_example Map.empty 0)" "uniqueYtIds ''u2'' (db_example Map.empty 0)"
    by (simp_all add: uniqueVideos_def uniqueYtIds_def db_example_def video_example_def)
  note d1 = createVideo_dedup [OF h refl, of "''vid_2''" None "[]" "''u1''" None None "db_example Map.empty 0"]
  note d2 = createVideo_dedup [OF h refl, of "''vid_2''" None "[]" "''u2''" None None "db_example Map.empty 0"]
  have c1: "fst ?R1 = Inl AlreadyInLibrary"
    using d1 e1 by blast
  have c1': "snd ?R1 = db_example Map.empty 0"
    using d1 c1 by blast
  have c1'': "?R1 = (Inl AlreadyInLibrary, db_example Map.empty 0)"
    using c1 c1' by (simp add: prod_eq_iff)
  have c2: "fst ?R2 \<noteq> Inl AlreadyInLibrary"
    using d2 e2 by blast
  have c3: "uniqueVideos ''u2'' (snd ?R2)" and c4: "uniqueYtIds ''u2'' (snd ?R2)"
    using d2 u by blast+
  have c5: "map (\<lambda>r. (video_id r, video_userId r, platform r, ytId r)) (videosTable (snd ?R2))
              = [(''v1'', ''u1'', youtube, ''abc123''), (''vid_2'', ''u2'', youtube, ''abc123'')]"
    by (simp add: createVideo_def h insertVideo_def db_example_def video_example_def
          Video.extend_def VideoRow.fields_def Let_def)
  from h c1'' e1 c2 u(2) c4 u(1) c3 c5 show ?thesis
    by (intro conjI)
qed

text \<open>The claim as first stated fails: the owner's only video is a TikTok video with id
  \<open>123\<close>, the URL classifies as the YouTube video \<open>123\<close>, and \<open>createVideo\<close> answers with the
  conflict although no video of the owner has that platform and id.\<close>

theorem createVideo_dedup_counterexample:
  "getVideoInfo newURL_example ''https://youtu.be/123'' = Some (youtube, ''123'')
   \<and> map (\<lambda>r. (video_userId r, platform r, ytId r)) (videosTable db_tiktok) = [(''u1'', tiktok, ''123'')]
   \<and> createVideo newURL_example ''vid_2'' ''https://youtu.be/123'' None [] ''u1'' None None db_tiktok
       = (Inl AlreadyInLibrary, db_tiktok)"
  by (simp add: createVideo_def getVideoInfo_def getYouTubeId_def newURL_example_def trim_def
        whitespace_def youTubeIdOf_def hostOf_def toLowerCase_def pathParts_def at_index_def
        db_tiktok_def Let_def)

section \<open>Sync idempotence\<close>

lemma insertVideo_Inr:
  "insertVideo row db = Inr db' \<Longrightarrow> db' = db\<lparr> videosTable := videosTable db @ [row] \<rparr>"
  by (auto simp: insertVideo_def split: if_splits)

lemma insertFolder_Inr:
  "insertFolder row db = Inr db' \<Longrightarrow> db' = db\<lparr> foldersTable := foldersTable db @ [row] \<rparr>"
  by (auto simp: insertFolder_def split: if_splits)

lemma syncLoop_appends:
  "syncLoop newId n E tk uid lf mvs db = Inr db' \<Longrightarrow>
     \<exists>new. db' = db\<lparr> videosTable := videosTable db @ new \<rparr>
          \<and> (\<forall>v\<in>set new. video_userId v = uid \<and> video_folderId v = Some lf)
          \<and> (\<forall>mv\<in>set mvs. ytId mv \<in> E \<or> ytId mv \<in> ytId ` set new)"
proof (induction mvs arbitrary: n db)
  case Nil
  then have "db' = db\<lparr> videosTable := videosTable db @ [] \<rparr>" by simp
  then show ?case by (intro exI [of _ "[]"]) simp
next
  case (Cons mv rest)
  show ?case
  proof (cases "ytId mv \<in> E")
    case True
    with Cons.prems have "syncLoop newId n E tk uid lf rest db = Inr db'" by simp
    from Cons.IH [OF this] obtain new where
      "db' = db\<lparr> videosTable := videosTable db @ new \<rparr>"
      "\<forall>v\<in>set new. video_userId v = uid \<and> video_folderId v = Some lf"
      "\<forall>mv\<in>set rest. ytId mv \<in> E \<or> ytId mv \<in> ytId ` set new"
      by blast
    with True show ?thesis by (intro exI [of _ new]) simp
  next
    case False
    let ?row = "\<lparr> video_id = newId n, video_url = video_url mv, ytId = ytId mv,
                   platform = platform mv, video_folderId = Some lf,
                   video_priority = video_priority mv, assigned = assignAll tk,
                   progress = progressAll tk, totalViews = 0, video_userId = uid \<rparr>"
    from False Cons.prems obtain db1 where
      i: "insertVideo ?row db = Inr db1"
      and l: "syncLoop newId (Suc n) E tk uid lf rest db1 = Inr db'"
      by (auto split: sum.splits)
    from insertVideo_Inr [OF i] have d1: "db1 = db\<lparr> videosTable := videosTable db @ [?row] \<rparr>" .
    from Cons.IH [OF l] obtain new where
      n1: "db' = db1\<lparr> videosTable := videosTable db1 @ new \<rparr>"
      and n2: "\<forall>v\<in>set new. video_userId v = uid \<and> video_folderId v = Some lf"
      and n3: "\<forall>mv\<in>set rest. ytId mv \<in> E \<or> ytId mv \<in> ytId ` set new"
      by blast
    have "db' = db\<lparr> videosTable := videosTable db @ (?row # new) \<rparr>"
      using n1 d1 by simp
    moreover have "\<forall>v\<in>set (?row # new). video_userId v = uid \<and> video_folderId v = Some lf"
      using n2 by simp
    moreover have "\<forall>m\<in>set (mv # rest). ytId m \<in> E \<or> ytId m \<in> ytId ` set (?row # new)"
      using n3 by auto
    ultimately show ?thesis by blast
  qed
qed

lemma syncLoop_nothing_new:
  "\<forall>mv\<in>set mvs. ytId mv \<in> E \<Longrightarrow> syncLoop newId n E tk uid lf mvs db = Inr db"
  by (induction mvs) simp_all

lemma ytId_truncate: "ytId (Video.truncate r) = ytId r"
  by (simp add: Video.truncate_def)

lemma synced_noop:
  assumes "synced userId masterFolderId masterUserId db"
  shows "syncSubscription newId userId masterFolderId masterUserId db = Inr db"
proof (cases "filter (\<lambda>s. sub_userId s = userId \<and> sub_masterFolderId s = masterFolderId)
                     (globalSubscriptionsTable db)")
  case Nil
  then show ?thesis by (simp add: syncSubscription_def)
next
  case (Cons sub subs)
  show ?thesis
  proof (cases "filter (\<lambda>f. folder_id f = masterFolderId \<and> folder_userId f = masterUserId) (foldersTable db) = []")
    case True
    with Cons show ?thesis by (simp add: syncSubscription_def Let_def)
  next
    case False
    with Cons assms obtain f rest where
      lf: "filter (\<lambda>f. folder_userId f = userId \<and> folder_name f = ''__global_'' @ masterFolderId)
                  (foldersTable db) = f # rest"
      and cov: "\<forall>r\<in>set (videosTable db).
                  video_userId r = masterUserId \<and> video_folderId r = Some masterFolderId \<longrightarrow>
                  ytId r \<in> ytId ` {r' \<in> set (videosTable db).
                                    video_userId r' = userId \<and> video_folderId r' = Some (folder_id f)}"
      by (auto simp: synced_def)
    have "\<forall>mv\<in>set (getGlobalVideos masterUserId masterFolderId db).
            ytId mv \<in> set (map ytId (filter (\<lambda>r. video_userId r = userId
                                                  \<and> video_folderId r = Some (folder_id f))
                                            (videosTable db)))"
      using cov by (auto simp: getGlobalVideos_def ytId_truncate)
    from syncLoop_nothing_new [OF this] Cons False lf show ?thesis
      by (simp add: syncSubscription_def Let_def)
  qed
qed

lemma sync_establishes_synced:
  assumes "syncSubscription newId userId masterFolderId masterUserId db = Inr db'"
  shows "synced userId masterFolderId masterUserId db'"
proof (cases "filter (\<lambda>s. sub_userId s = userId \<and> sub_masterFolderId s = masterFolderId)
                     (globalSubscriptionsTable db)")
  case Nil
  with assms have "db' = db" by (simp add: syncSubscription_def)
  with Nil show ?thesis by (simp add: synced_def)
next
  case (Cons sub subs)
  let ?M = "\<lambda>f::FolderRow. folder_id f = masterFolderId \<and> folder_userId f = masterUserId"
  let ?L = "\<lambda>f::FolderRow. folder_userId f = userId \<and> folder_name f = ''__global_'' @ masterFolderId"
  show ?thesis
  proof (cases "filter ?M (foldersTable db) = []")
    case True
    with Cons assms have "db' = db" by (simp add: syncSubscription_def Let_def)
    with True show ?thesis by (simp add: synced_def)
  next
    case False
    define row where "row = \<lparr> folder_id = newId 0, folder_name = ''__global_'' @ masterFolderId,
                              folder_userId = userId \<rparr>"
    define tk where "tk = (if length (sub_kidIds sub) > 0
                           then filter (\<lambda>k. kid_id k \<in> set (sub_kidIds sub)) (getKids userId db)
                           else getKids userId db)"
    define E where "E = (\<lambda>lfid (db1::DB). set (map ytId (filter (\<lambda>r. video_userId r = userId
                                                               \<and> video_folderId r = Some lfid)
                                                         (videosTable db1))))"
    have "\<exists>lfid db1.
            syncLoop newId 1 (E lfid db1) tk userId lfid
              (getGlobalVideos masterUserId masterFolderId db1) db1 = Inr db'
          \<and> videosTable db1 = videosTable db
          \<and> (\<exists>f rest. filter ?L (foldersTable db1) = f # rest \<and> folder_id f = lfid)"
    proof (cases "filter ?L (foldersTable db)")
      case Nil
      show ?thesis
      proof (cases "insertFolder row db")
        case (Inl e)
        with assms Cons False Nil show ?thesis
          by (simp add: syncSubscription_def Let_def row_def)
      next
        case (Inr d)
        with assms Cons False Nil
        have "syncLoop newId 1 (E (newId 0) d) tk userId (newId 0)
                (getGlobalVideos masterUserId masterFolderId d) d = Inr db'"
          by (simp add: syncSubscription_def Let_def row_def tk_def E_def)
        moreover from insertFolder_Inr [OF Inr] Nil
        have "videosTable d = videosTable db"
          and "filter ?L (foldersTable d) = [row]" and "folder_id row = newId 0"
          by (simp_all add: row_def)
        ultimately show ?thesis by blast
      qed
    next
      case (Cons f rest)
      with assms \<open>filter _ (globalSubscriptionsTable db) = sub # subs\<close> False
      have "syncLoop newId 1 (E (folder_id f) db) tk userId (folder_id f)
              (getGlobalVideos masterUserId masterFolderId db) db = Inr db'"
        by (simp add: syncSubscription_def Let_def tk_def E_def)
      with Cons show ?thesis by blast
    qed
    then obtain lfid db1 where
      loop: "syncLoop newId 1 (E lfid db1) tk userId lfid
               (getGlobalVideos masterUserId masterFolderId db1) db1 = Inr db'"
      and d1: "videosTable db1 = videosTable db
               \<and> (\<exists>f rest. filter ?L (foldersTable db1) = f # rest \<and> folder_id f = lfid)"
      by blast
    from syncLoop_appends [OF loop] obtain new where
      n1: "db' = db1\<lparr> videosTable := videosTable db1 @ new \<rparr>"
      and n2: "\<forall>v\<in>set new. video_userId v = userId \<and> video_folderId v = Some lfid"
      and n3: "\<forall>mv\<in>set (getGlobalVideos masterUserId masterFolderId db1).
                 ytId mv \<in> E lfid db1 \<or> ytId mv \<in> ytId ` set new"
      by blast
    from d1 obtain f rest where lf: "filter ?L (foldersTable db1) = f # rest" and fid: "folder_id f = lfid"
      by blast
    have lf': "filter ?L (foldersTable db') = f # rest"
      using lf n1 by simp
    have cov: "ytId r \<in> ytId ` {r' \<in> set (videosTable db').
                                  video_userId r' = userId \<and> video_folderId r' = Some (folder_id f)}"
      if r: "r \<in> set (videosTable db')"
        and m: "video_userId r = masterUserId \<and> video_folderId r = Some masterFolderId" for r
    proof (cases "r \<in> set new")
      case True
      with n2 have "video_userId r = userId \<and> video_folderId r = Some lfid" by blast
      with r fid show ?thesis by blast
    next
      case False
      with r n1 have "r \<in> set (videosTable db1)" by simp
      with m have "Video.truncate r \<in> set (getGlobalVideos masterUserId masterFolderId db1)"
        by (auto simp: getGlobalVideos_def)
      with n3 have "ytId r \<in> E lfid db1 \<or> ytId r \<in> ytId ` set new"
        by (auto simp: ytId_truncate)
      then show ?thesis
        using n1 n2 fid by (auto simp: E_def)
    qed
    show ?thesis
      unfolding synced_def using lf' cov by blast
  qed
qed

text \<open>
  Claim C4.  After a \<open>syncSubscription\<close> that completed, a second call for the same subscriber
  and master folder, with any supply of fresh identifiers and no change in between, completes
  and returns the store unchanged: it creates no video, and the videos of the subscriber's
  shadow folder are the same.
\<close>

theorem syncSubscription_idempotent:
  assumes "syncSubscription newId userId masterFolderId masterUserId db = Inr db'"
  shows "\<exists>db''. syncSubscription newId' userId masterFolderId masterUserId db' = Inr db''
               \<and> db'' = db'
               \<and> shadowVideos userId masterFolderId db'' = shadowVideos userId masterFolderId db'"
  using synced_noop [OF sync_establishes_synced [OF assms]] by simp

theorem syncSubscription_idempotent_witness:
  "\<exists>db'. syncSubscription ids_example ''u1'' ''mf1'' ''master'' db_sync = Inr db'
        \<and> map ytId (shadowVideos ''u1'' ''mf1'' db') = [''aaa'', ''bbb'']
        \<and> length (videosTable db') = 4
        \<and> syncSubscription ids_example ''u1'' ''mf1'' ''master'' db' = Inr db'"
proof -
  obtain db' where
    s: "syncSubscription ids_example ''u1'' ''mf1'' ''master'' db_sync = Inr db'"
    and o: "map ytId (shadowVideos ''u1'' ''mf1'' db') = [''aaa'', ''bbb'']"
      "length (videosTable db') = 4"
    by (simp add: syncSubscription_def db_sync_def master_video_def ids_example_def getKids_def
          getGlobalVideos_def insertFolder_def insertVideo_def shadowVideos_def Video.truncate_def
          Kid.truncate_def Let_def del: set_filter)
  from syncSubscription_idempotent [OF s, of ids_example] s o show ?thesis
    by auto
qed

end
